theory Spec2Isabelle
  imports Main
begin

section \<open>CivicConnect: the civic-points ledger and the activity-verification workflow\<close>

text \<open>
  The development embeds the civic part of the server: the \<open>User\<close> and
  \<open>CivicActivity\<close> schemas, the \<open>Notification\<close> schema, the method
  \<open>updateCivicRank\<close> and the handlers \<open>approveActivity\<close>,
  \<open>rejectActivity\<close>, \<open>endorseActivity\<close> and \<open>getUserCivicStats\<close> of the
  civic controller.

  Conventions of the embedding.
  \<^item> An ObjectId is a natural number; \<open>Date.now()\<close> is a parameter \<open>now\<close>.
  \<^item> A JavaScript Number that holds points is an \<open>int\<close>, and \<open>+\<close> on points is
    the addition of integers. A Number is a double: the embedding is the code as long as
    the amounts and totals involved are safe integers (\<open>isSafeInteger\<close> below,
    magnitude at most \<open>2^53 - 1\<close>); beyond that the code rounds and the embedding
    does not. The theorems that state a configured amount and the total it produces
    assume these safe.
  \<^item> A collection is the list of its documents; \<open>findById\<close> is \<open>find\<close> on the
    \<open>_id\<close> field.
  \<^item> A handler takes the database and returns the database after the call together
    with the HTTP response. An awaited storage operation that is given a document the
    schema accepts completes; a document the schema refuses (a \<open>maxlength\<close> validator)
    rejects the promise, which the handler's \<open>catch\<close> turns into status 500.
  \<^item> The socket push that follows each notification carries data already in the
    database and changes no document; it is left out.
\<close>

subsection \<open>Documents\<close>

datatype rank = Citizen | Helper | Champion | Hero | Legend

datatype status = pending | approved | rejected

text \<open>The \<open>User\<close> schema, restricted to the fields the civic controller reads or writes.\<close>

record user =
  u_id :: nat
  fullName :: string
  civicPoints :: int
  civicRank :: rank

text \<open>An embedded endorsement: \<open>user\<close>, \<open>message\<close>, \<open>pointsGiven\<close>, \<open>createdAt\<close>.\<close>

record endorsement =
  e_user :: nat
  e_message :: string
  pointsGiven :: int
  e_createdAt :: nat

text \<open>The \<open>CivicActivity\<close> schema; a field without a default is optional.\<close>

record activity =
  a_id :: nat
  a_user :: nat
  title :: string
  status :: status
  pointsAwarded :: int
  verifiedBy :: "nat option"
  verifiedAt :: "nat option"
  rejectionReason :: "string option"
  endorsements :: "endorsement list"

datatype notification_type = civic_approved | civic_rejected | endorsement_type

record notification =
  recipient :: nat
  sender :: "nat option"
  n_type :: notification_type
  civicActivity :: nat
  n_message :: string

record db =
  activities :: "activity list"
  users :: "user list"
  notifications :: "notification list"

subsection \<open>The rank method of the User schema\<close>

text \<open>\<open>userSchema.methods.updateCivicRank\<close>: the chain of comparisons, top threshold first.\<close>

definition updateCivicRank :: "user \<Rightarrow> user" where
  "updateCivicRank this =
     (let points = civicPoints this in
      if points \<ge> 10000 then this\<lparr>civicRank := Legend\<rparr>
      else if points \<ge> 5000 then this\<lparr>civicRank := Hero\<rparr>
      else if points \<ge> 2000 then this\<lparr>civicRank := Champion\<rparr>
      else if points \<ge> 500 then this\<lparr>civicRank := Helper\<rparr>
      else this\<lparr>civicRank := Citizen\<rparr>)"

text \<open>
  The rank table in the words of the specification: five closed intervals of
  non-negative point totals, and no entry for a negative total.
\<close>

definition rank_table :: "int \<Rightarrow> rank option" where
  "rank_table p =
     (if 0 \<le> p \<and> p \<le> 499 then Some Citizen
      else if 500 \<le> p \<and> p \<le> 1999 then Some Helper
      else if 2000 \<le> p \<and> p \<le> 4999 then Some Champion
      else if 5000 \<le> p \<and> p \<le> 9999 then Some Hero
      else if 10000 \<le> p then Some Legend
      else None)"

text \<open>The position of a rank in the schema's \<open>enum\<close> list, lowest tier first.\<close>

fun rank_index :: "rank \<Rightarrow> nat" where
  "rank_index Citizen = 0"
| "rank_index Helper = 1"
| "rank_index Champion = 2"
| "rank_index Hero = 3"
| "rank_index Legend = 4"

subsection \<open>Configuration: \<open>parseInt(process.env.X) || default\<close>\<close>

text \<open>
  \<open>parseInt\<close> with no radix, as ECMAScript defines it: leading white space is
  dropped, one sign is read, a \<open>0x\<close> or \<open>0X\<close> prefix selects radix 16 (radix 10
  otherwise), the longest prefix of digits of that radix is the numeral, and no digit at
  all is \<open>NaN\<close> (here \<open>None\<close>). A character is a code unit below 256.
  \<open>numeral_value\<close> is the mathematical value of the numeral; \<open>parseInt\<close> returns the
  Number nearest to it, which is that value whenever it is a safe integer and may differ
  from it otherwise (\<open>parseInt('9007199254740993')\<close> is 9007199254740992).
\<close>

definition StrWhiteSpaceChar :: "char \<Rightarrow> bool" where
  "StrWhiteSpaceChar c = ((of_char c :: nat) \<in> {9, 10, 11, 12, 13, 32, 160})"

definition digit_value :: "char \<Rightarrow> nat option" where
  "digit_value c =
     (let n = (of_char c :: nat) in
      if 48 \<le> n \<and> n \<le> 57 then Some (n - 48)
      else if 97 \<le> n \<and> n \<le> 122 then Some (n - 87)
      else if 65 \<le> n \<and> n \<le> 90 then Some (n - 55)
      else None)"

definition radix_digit :: "nat \<Rightarrow> char \<Rightarrow> bool" where
  "radix_digit R c = (case digit_value c of None \<Rightarrow> False | Some v \<Rightarrow> v < R)"

definition numeral_value :: "nat \<Rightarrow> string \<Rightarrow> nat" where
  "numeral_value R Z =
     foldl (\<lambda>acc c. acc * R + (case digit_value c of None \<Rightarrow> 0 | Some v \<Rightarrow> v)) 0 Z"

definition parseInt_string :: "string \<Rightarrow> int option" where
  "parseInt_string inputString =
     (let S = dropWhile StrWhiteSpaceChar inputString;
          sign = (if S \<noteq> [] \<and> hd S = CHR ''-'' then - 1 else 1 :: int);
          S = (if S \<noteq> [] \<and> (hd S = CHR ''+'' \<or> hd S = CHR ''-'') then tl S else S);
          hex = (take 2 S = ''0x'' \<or> take 2 S = ''0X'');
          R = (if hex then 16 else 10);
          S = (if hex then drop 2 S else S);
          Z = takeWhile (radix_digit R) S
      in if Z = [] then None else Some (sign * int (numeral_value R Z)))"

text \<open>
  An environment variable is a string, or is absent: \<open>process.env.X\<close> is then
  \<open>undefined\<close>, which \<open>parseInt\<close> reads as the string \<open>undefined\<close>.
\<close>

definition parseInt :: "string option \<Rightarrow> int option" where
  "parseInt v = parseInt_string (case v of None \<Rightarrow> ''undefined'' | Some s \<Rightarrow> s)"

text \<open>\<open>a || b\<close> on a Number \<open>a\<close>: the falsy Numbers are \<open>NaN\<close> and zero.\<close>

definition or_default :: "int option \<Rightarrow> int \<Rightarrow> int" where
  "or_default a b = (case a of None \<Rightarrow> b | Some n \<Rightarrow> if n = 0 then b else n)"

text \<open>
  \<open>Number.MAX_SAFE_INTEGER\<close> and \<open>Number.isSafeInteger\<close>, on integers: every integer
  of this range is a Number, and the sum of two Numbers that is in this range is computed
  exactly.
\<close>

definition MAX_SAFE_INTEGER :: int where
  "MAX_SAFE_INTEGER = 2 ^ 53 - 1"

definition isSafeInteger :: "int \<Rightarrow> bool" where
  "isSafeInteger x = (- MAX_SAFE_INTEGER \<le> x \<and> x \<le> MAX_SAFE_INTEGER)"

record env =
  POINTS_PER_GOOD_DEED :: "string option"
  POINTS_PER_ENDORSEMENT :: "string option"

subsection \<open>Template literals\<close>

text \<open>The decimal rendering of a Number that is an integer.\<close>

function decimal :: "nat \<Rightarrow> string" where
  "decimal n = (if 10 \<le> n then decimal (n div 10) else []) @ [char_of (n mod 10 + 48)]"
  by pat_completeness auto
termination
  by (relation "measure id") auto

declare decimal.simps [simp del]

definition String :: "int \<Rightarrow> string" where
  "String points = (if points < 0 then CHR ''-'' # decimal (nat (- points)) else decimal (nat points))"

definition approved_message :: "activity \<Rightarrow> int \<Rightarrow> string" where
  "approved_message activity pointsToAward =
     ''Your civic activity '' @ [CHR 0x22] @ title activity @ [CHR 0x22]
       @ '' has been approved! You earned '' @ String pointsToAward @ '' Civic Points.''"

definition rejected_message :: "activity \<Rightarrow> string" where
  "rejected_message activity =
     ''Your civic activity '' @ [CHR 0x22] @ title activity @ [CHR 0x22]
       @ '' was not approved. Reason: ''
       @ (case rejectionReason activity of None \<Rightarrow> ''undefined'' | Some r \<Rightarrow> r)"

definition endorsed_message :: "user \<Rightarrow> string" where
  "endorsed_message req_user = fullName req_user @ '' endorsed your civic activity!''"

subsection \<open>Storage operations\<close>

datatype exn = ValidationError | TypeError

text \<open>
  \<open>document.save()\<close> validates the paths the handler modified and then writes those
  paths, and only those, to the stored document with the same \<open>_id\<close>: a modified
  scalar path is set, elements pushed to an array are appended. \<open>loaded\<close> is the
  document as \<open>findById\<close> returned it, \<open>modified\<close> the same document after the
  handler's assignments. The validators that can refuse a value are the schema's
  \<open>maxlength: 500\<close> on \<open>rejectionReason\<close> and on an endorsement's \<open>message\<close>.
\<close>

definition validate_activity :: "activity \<Rightarrow> activity \<Rightarrow> bool" where
  "validate_activity loaded modified =
     ((rejectionReason modified = rejectionReason loaded
        \<or> (case rejectionReason modified of None \<Rightarrow> True | Some r \<Rightarrow> length r \<le> 500))
      \<and> list_all (\<lambda>e. length (e_message e) \<le> 500)
           (drop (length (endorsements loaded)) (endorsements modified)))"

definition merge_activity :: "activity \<Rightarrow> activity \<Rightarrow> activity \<Rightarrow> activity" where
  "merge_activity loaded modified stored =
     stored\<lparr>
       status := (if status modified = status loaded then status stored else status modified),
       pointsAwarded :=
         (if pointsAwarded modified = pointsAwarded loaded then pointsAwarded stored
          else pointsAwarded modified),
       verifiedBy :=
         (if verifiedBy modified = verifiedBy loaded then verifiedBy stored
          else verifiedBy modified),
       verifiedAt :=
         (if verifiedAt modified = verifiedAt loaded then verifiedAt stored
          else verifiedAt modified),
       rejectionReason :=
         (if rejectionReason modified = rejectionReason loaded then rejectionReason stored
          else rejectionReason modified),
       endorsements :=
         endorsements stored @ drop (length (endorsements loaded)) (endorsements modified)\<rparr>"

definition activity_save :: "activity \<Rightarrow> activity \<Rightarrow> db \<Rightarrow> exn + db" where
  "activity_save loaded modified d =
     (if validate_activity loaded modified
      then Inr (d\<lparr>activities :=
                   map (\<lambda>stored. if a_id stored = a_id modified
                                  then merge_activity loaded modified stored else stored)
                     (activities d)\<rparr>)
      else Inl ValidationError)"

definition merge_user :: "user \<Rightarrow> user \<Rightarrow> user \<Rightarrow> user" where
  "merge_user loaded modified stored =
     stored\<lparr>
       civicPoints :=
         (if civicPoints modified = civicPoints loaded then civicPoints stored
          else civicPoints modified),
       civicRank :=
         (if civicRank modified = civicRank loaded then civicRank stored
          else civicRank modified)\<rparr>"

definition user_save :: "user \<Rightarrow> user \<Rightarrow> db \<Rightarrow> db" where
  "user_save loaded modified d =
     d\<lparr>users :=
         map (\<lambda>stored. if u_id stored = u_id modified
                        then merge_user loaded modified stored else stored)
           (users d)\<rparr>"

text \<open>\<open>Notification.create\<close>: the schema's \<open>maxlength: 500\<close> on \<open>message\<close>.\<close>

definition Notification_create :: "notification \<Rightarrow> db \<Rightarrow> exn + db" where
  "Notification_create n d =
     (if length (n_message n) \<le> 500
      then Inr (d\<lparr>notifications := notifications d @ [n]\<rparr>)
      else Inl ValidationError)"

definition findActivity :: "nat \<Rightarrow> db \<Rightarrow> activity option" where
  "findActivity i d = find (\<lambda>a. a_id a = i) (activities d)"

definition findUser :: "nat \<Rightarrow> db \<Rightarrow> user option" where
  "findUser i d = find (\<lambda>u. u_id u = i) (users d)"

subsection \<open>The handlers of the civic controller\<close>

text \<open>
  A response: a status code with a message; status 200 with a message and the
  activity; status 200 with the civic stats; or status 500 from the \<open>catch\<close> block.
\<close>

datatype response =
    Json nat string
  | JsonActivity string activity
  | JsonStats int rank nat nat nat
  | Error500 exn

text \<open>
  \<open>approveActivity\<close>. When \<open>User.findById\<close> finds no owner, \<open>user.civicPoints\<close>
  throws a TypeError after the activity has been saved.
\<close>

definition approveActivity :: "env \<Rightarrow> nat \<Rightarrow> user \<Rightarrow> nat \<Rightarrow> db \<Rightarrow> db \<times> response" where
  "approveActivity env now req_user req_id d =
     (case findActivity req_id d of
        None \<Rightarrow> (d, Json 404 ''Activity not found'')
      | Some loaded \<Rightarrow>
          if status loaded \<noteq> pending then (d, Json 400 ''Activity already processed'')
          else
            let pointsToAward = or_default (parseInt (POINTS_PER_GOOD_DEED env)) 100;
                activity = loaded\<lparr>status := approved, pointsAwarded := pointsToAward,
                             verifiedBy := Some (u_id req_user), verifiedAt := Some now\<rparr>
            in (case activity_save loaded activity d of
                  Inl e \<Rightarrow> (d, Error500 e)
                | Inr d1 \<Rightarrow>
                    (case findUser (a_user activity) d1 of
                       None \<Rightarrow> (d1, Error500 TypeError)
                     | Some loaded_user \<Rightarrow>
                         let user = updateCivicRank
                                      (loaded_user\<lparr>civicPoints := civicPoints loaded_user + pointsToAward\<rparr>);
                             d2 = user_save loaded_user user d1
                         in (case Notification_create
                                    \<lparr>recipient = u_id user, sender = None, n_type = civic_approved,
                                     civicActivity = a_id activity,
                                     n_message = approved_message activity pointsToAward\<rparr> d2 of
                               Inl e \<Rightarrow> (d2, Error500 e)
                             | Inr d3 \<Rightarrow> (d3, JsonActivity ''Activity approved successfully'' activity)))))"

text \<open>\<open>rejectActivity\<close>; \<open>reason\<close> is \<open>req.body.reason\<close>, absent or a string.\<close>

definition rejectActivity :: "nat \<Rightarrow> user \<Rightarrow> string option \<Rightarrow> nat \<Rightarrow> db \<Rightarrow> db \<times> response" where
  "rejectActivity now req_user reason req_id d =
     (case findActivity req_id d of
        None \<Rightarrow> (d, Json 404 ''Activity not found'')
      | Some loaded \<Rightarrow>
          if status loaded \<noteq> pending then (d, Json 400 ''Activity already processed'')
          else
            let activity = loaded\<lparr>status := rejected,
                             rejectionReason :=
                               Some (case reason of None \<Rightarrow> ''Does not meet criteria''
                                     | Some r \<Rightarrow> if r = [] then ''Does not meet criteria'' else r),
                             verifiedBy := Some (u_id req_user), verifiedAt := Some now\<rparr>
            in (case activity_save loaded activity d of
                  Inl e \<Rightarrow> (d, Error500 e)
                | Inr d1 \<Rightarrow>
                    (case Notification_create
                           \<lparr>recipient = a_user activity, sender = None, n_type = civic_rejected,
                            civicActivity = a_id activity,
                            n_message = rejected_message activity\<rparr> d1 of
                       Inl e \<Rightarrow> (d1, Error500 e)
                     | Inr d2 \<Rightarrow> (d2, JsonActivity ''Activity rejected'' activity))))"

text \<open>\<open>endorseActivity\<close>; \<open>message\<close> is \<open>req.body.message\<close>, absent or a string.\<close>

definition endorseActivity ::
  "env \<Rightarrow> nat \<Rightarrow> user \<Rightarrow> string option \<Rightarrow> nat \<Rightarrow> db \<Rightarrow> db \<times> response" where
  "endorseActivity env now req_user message req_id d =
     (case findActivity req_id d of
        None \<Rightarrow> (d, Json 404 ''Activity not found'')
      | Some loaded \<Rightarrow>
          if status loaded \<noteq> approved then (d, Json 400 ''Can only endorse approved activities'')
          else if a_user loaded = u_id req_user then (d, Json 400 ''Cannot endorse your own activity'')
          else
            let alreadyEndorsed = list_ex (\<lambda>e. e_user e = u_id req_user) (endorsements loaded)
            in if alreadyEndorsed then (d, Json 400 ''Already endorsed this activity'')
            else
              let endorsementPoints = or_default (parseInt (POINTS_PER_ENDORSEMENT env)) 10;
                  activity = loaded\<lparr>endorsements := endorsements loaded @
                               [\<lparr>e_user = u_id req_user,
                                 e_message = (case message of None \<Rightarrow> []
                                              | Some m \<Rightarrow> if m = [] then [] else m),
                                 pointsGiven = endorsementPoints,
                                 e_createdAt = now\<rparr>]\<rparr>
              in (case activity_save loaded activity d of
                    Inl e \<Rightarrow> (d, Error500 e)
                  | Inr d1 \<Rightarrow>
                      (case findUser (a_user activity) d1 of
                         None \<Rightarrow> (d1, Error500 TypeError)
                       | Some loaded_user \<Rightarrow>
                           let user = updateCivicRank
                                        (loaded_user\<lparr>civicPoints := civicPoints loaded_user + endorsementPoints\<rparr>);
                               d2 = user_save loaded_user user d1
                           in (case Notification_create
                                      \<lparr>recipient = u_id user, sender = Some (u_id req_user),
                                       n_type = endorsement_type, civicActivity = a_id activity,
                                       n_message = endorsed_message req_user\<rparr> d2 of
                                 Inl e \<Rightarrow> (d2, Error500 e)
                               | Inr d3 \<Rightarrow> (d3, JsonActivity ''Activity endorsed successfully'' activity)))))"

text \<open>
  \<open>getUserCivicStats\<close>: two \<open>countDocuments\<close> queries and one aggregation, whose
  \<open>$group\<close> stage yields one document when the \<open>$match\<close> stage lets any through and
  none otherwise; \<open>totalEndorsements[0]?.total || 0\<close> reads it.
\<close>

definition countDocuments :: "(activity \<Rightarrow> bool) \<Rightarrow> db \<Rightarrow> nat" where
  "countDocuments query d = length (filter query (activities d))"

definition aggregate_endorsements :: "nat \<Rightarrow> db \<Rightarrow> nat list" where
  "aggregate_endorsements uid d =
     (let matched = filter (\<lambda>a. a_user a = uid \<and> status a = approved) (activities d);
          projected = map (\<lambda>a. length (endorsements a)) matched
      in if projected = [] then [] else [foldl (+) 0 projected])"

definition getUserCivicStats :: "nat \<Rightarrow> db \<Rightarrow> db \<times> response" where
  "getUserCivicStats req_userId d =
     (case findUser req_userId d of
        None \<Rightarrow> (d, Json 404 ''User not found'')
      | Some user \<Rightarrow>
          let totalActivities =
                countDocuments (\<lambda>a. a_user a = u_id user \<and> status a = approved) d;
              pendingActivities =
                countDocuments (\<lambda>a. a_user a = u_id user \<and> status a = pending) d;
              totalEndorsements = aggregate_endorsements (u_id user) d
          in (d, JsonStats (civicPoints user) (civicRank user) totalActivities pendingActivities
                   (case totalEndorsements of [] \<Rightarrow> 0
                    | t # _ \<Rightarrow> if t = 0 then 0 else t)))"

subsection \<open>The civic stats in the words of the specification\<close>

text \<open>
  The number of a user's activities with a given status, and the sum of the lengths
  of the endorsement lists of a user's approved activities, by recursion over the
  collection.
\<close>

primrec count_with_status :: "nat \<Rightarrow> status \<Rightarrow> activity list \<Rightarrow> nat" where
  "count_with_status uid st [] = 0"
| "count_with_status uid st (a # as) =
     (if a_user a = uid \<and> status a = st then 1 else 0) + count_with_status uid st as"

primrec approved_endorsements :: "nat \<Rightarrow> activity list \<Rightarrow> nat" where
  "approved_endorsements uid [] = 0"
| "approved_endorsements uid (a # as) =
     (if a_user a = uid \<and> status a = approved then length (endorsements a) else 0)
       + approved_endorsements uid as"

subsection \<open>One approval as a sequence of awaited storage operations\<close>

text \<open>
  Node runs a handler without interruption from one \<open>await\<close> to the next, so two
  requests interleave exactly at the awaited storage operations. An approval in progress is
  \<open>approveActivity\<close> suspended at one of its five \<open>await\<close>s, holding the local
  variables that are live there; a step performs the awaited operation on the database
  and runs the handler up to its next \<open>await\<close> or to its response.
\<close>

datatype approval_state =
    Find_activity
  | Save_activity activity activity int
  | Find_user activity int
  | Save_user activity int user user
  | Create_notification activity int user
  | Responded response

definition approve_step ::
  "env \<Rightarrow> nat \<Rightarrow> user \<Rightarrow> nat \<Rightarrow> approval_state \<Rightarrow> db \<Rightarrow> approval_state \<times> db" where
  "approve_step env now req_user req_id t d =
     (case t of
        Find_activity \<Rightarrow>
          (case findActivity req_id d of
             None \<Rightarrow> (Responded (Json 404 ''Activity not found''), d)
           | Some loaded \<Rightarrow>
               if status loaded \<noteq> pending
               then (Responded (Json 400 ''Activity already processed''), d)
               else
                 let pointsToAward = or_default (parseInt (POINTS_PER_GOOD_DEED env)) 100;
                     activity = loaded\<lparr>status := approved, pointsAwarded := pointsToAward,
                                  verifiedBy := Some (u_id req_user), verifiedAt := Some now\<rparr>
                 in (Save_activity loaded activity pointsToAward, d))
      | Save_activity loaded activity pointsToAward \<Rightarrow>
          (case activity_save loaded activity d of
             Inl e \<Rightarrow> (Responded (Error500 e), d)
           | Inr d1 \<Rightarrow> (Find_user activity pointsToAward, d1))
      | Find_user activity pointsToAward \<Rightarrow>
          (case findUser (a_user activity) d of
             None \<Rightarrow> (Responded (Error500 TypeError), d)
           | Some loaded_user \<Rightarrow>
               (Save_user activity pointsToAward loaded_user
                  (updateCivicRank
                     (loaded_user\<lparr>civicPoints := civicPoints loaded_user + pointsToAward\<rparr>)), d))
      | Save_user activity pointsToAward loaded_user user \<Rightarrow>
          (Create_notification activity pointsToAward user, user_save loaded_user user d)
      | Create_notification activity pointsToAward user \<Rightarrow>
          (case Notification_create
                  \<lparr>recipient = u_id user, sender = None, n_type = civic_approved,
                   civicActivity = a_id activity,
                   n_message = approved_message activity pointsToAward\<rparr> d of
             Inl e \<Rightarrow> (Responded (Error500 e), d)
           | Inr d3 \<Rightarrow> (Responded (JsonActivity ''Activity approved successfully'' activity), d3))
      | Responded r \<Rightarrow> (Responded r, d))"

text \<open>One request on its own: its five steps in a row.\<close>

definition approve_alone :: "env \<Rightarrow> nat \<Rightarrow> user \<Rightarrow> nat \<Rightarrow> db \<Rightarrow> approval_state \<times> db" where
  "approve_alone env now req_user req_id d =
     (let step = (\<lambda>(t, d). approve_step env now req_user req_id t d)
      in step (step (step (step (step (Find_activity, d))))))"

text \<open>
  Two approval requests on one database; a schedule says which request takes the next
  step.
\<close>

datatype turn = First | Second

record approve_request =
  r_env :: env
  r_now :: nat
  r_user :: user
  r_id :: nat

fun interleave ::
  "approve_request \<Rightarrow> approve_request \<Rightarrow> turn list \<Rightarrow> approval_state \<times> approval_state \<times> db
     \<Rightarrow> approval_state \<times> approval_state \<times> db" where
  "interleave q1 q2 [] s = s"
| "interleave q1 q2 (First # sched) (t1, t2, d) =
     (case approve_step (r_env q1) (r_now q1) (r_user q1) (r_id q1) t1 d of
        (t1', d') \<Rightarrow> interleave q1 q2 sched (t1', t2, d'))"
| "interleave q1 q2 (Second # sched) (t1, t2, d) =
     (case approve_step (r_env q2) (r_now q2) (r_user q2) (r_id q2) t2 d of
        (t2', d') \<Rightarrow> interleave q1 q2 sched (t1, t2', d'))"

subsection \<open>One endorsement as a sequence of awaited storage operations\<close>

text \<open>
  \<open>endorseActivity\<close> suspended at one of its five \<open>await\<close>s, in the same way.
\<close>

datatype endorsement_state =
    Endorse_find_activity
  | Endorse_save_activity activity activity int
  | Endorse_find_user activity int
  | Endorse_save_user activity int user user
  | Endorse_create_notification activity int user
  | Endorse_responded response

definition endorse_step ::
  "env \<Rightarrow> nat \<Rightarrow> user \<Rightarrow> string option \<Rightarrow> nat \<Rightarrow> endorsement_state \<Rightarrow> db
     \<Rightarrow> endorsement_state \<times> db" where
  "endorse_step env now req_user message req_id t d =
     (case t of
        Endorse_find_activity \<Rightarrow>
          (case findActivity req_id d of
             None \<Rightarrow> (Endorse_responded (Json 404 ''Activity not found''), d)
           | Some loaded \<Rightarrow>
               if status loaded \<noteq> approved
               then (Endorse_responded (Json 400 ''Can only endorse approved activities''), d)
               else if a_user loaded = u_id req_user
               then (Endorse_responded (Json 400 ''Cannot endorse your own activity''), d)
               else
                 let alreadyEndorsed =
                       list_ex (\<lambda>e. e_user e = u_id req_user) (endorsements loaded)
                 in if alreadyEndorsed
                 then (Endorse_responded (Json 400 ''Already endorsed this activity''), d)
                 else
                   let endorsementPoints = or_default (parseInt (POINTS_PER_ENDORSEMENT env)) 10;
                       activity = loaded\<lparr>endorsements := endorsements loaded @
                                    [\<lparr>e_user = u_id req_user,
                                      e_message = (case message of None \<Rightarrow> []
                                                   | Some m \<Rightarrow> if m = [] then [] else m),
                                      pointsGiven = endorsementPoints,
                                      e_createdAt = now\<rparr>]\<rparr>
                   in (Endorse_save_activity loaded activity endorsementPoints, d))
      | Endorse_save_activity loaded activity endorsementPoints \<Rightarrow>
          (case activity_save loaded activity d of
             Inl e \<Rightarrow> (Endorse_responded (Error500 e), d)
           | Inr d1 \<Rightarrow> (Endorse_find_user activity endorsementPoints, d1))
      | Endorse_find_user activity endorsementPoints \<Rightarrow>
          (case findUser (a_user activity) d of
             None \<Rightarrow> (Endorse_responded (Error500 TypeError), d)
           | Some loaded_user \<Rightarrow>
               (Endorse_save_user activity endorsementPoints loaded_user
                  (updateCivicRank
                     (loaded_user\<lparr>civicPoints := civicPoints loaded_user + endorsementPoints\<rparr>)), d))
      | Endorse_save_user activity endorsementPoints loaded_user user \<Rightarrow>
          (Endorse_create_notification activity endorsementPoints user,
           user_save loaded_user user d)
      | Endorse_create_notification activity endorsementPoints user \<Rightarrow>
          (case Notification_create
                  \<lparr>recipient = u_id user, sender = Some (u_id req_user),
                   n_type = endorsement_type, civicActivity = a_id activity,
                   n_message = endorsed_message req_user\<rparr> d of
             Inl e \<Rightarrow> (Endorse_responded (Error500 e), d)
           | Inr d3 \<Rightarrow>
               (Endorse_responded (JsonActivity ''Activity endorsed successfully'' activity), d3))
      | Endorse_responded r \<Rightarrow> (Endorse_responded r, d))"

definition endorse_alone ::
  "env \<Rightarrow> nat \<Rightarrow> user \<Rightarrow> string option \<Rightarrow> nat \<Rightarrow> db \<Rightarrow> endorsement_state \<times> db" where
  "endorse_alone env now req_user message req_id d =
     (let step = (\<lambda>(t, d). endorse_step env now req_user message req_id t d)
      in step (step (step (step (step (Endorse_find_activity, d))))))"

text \<open>
  An approval request and an endorsement request on one database: \<open>First\<close> lets the
  approval take its next step, \<open>Second\<close> the endorsement.
\<close>

record endorse_request =
  q_env :: env
  q_now :: nat
  q_user :: user
  q_message :: "string option"
  q_id :: nat

fun interleave_endorsement ::
  "approve_request \<Rightarrow> endorse_request \<Rightarrow> turn list \<Rightarrow> approval_state \<times> endorsement_state \<times> db
     \<Rightarrow> approval_state \<times> endorsement_state \<times> db" where
  "interleave_endorsement q1 q2 [] s = s"
| "interleave_endorsement q1 q2 (First # sched) (t1, t2, d) =
     (case approve_step (r_env q1) (r_now q1) (r_user q1) (r_id q1) t1 d of
        (t1', d') \<Rightarrow> interleave_endorsement q1 q2 sched (t1', t2, d'))"
| "interleave_endorsement q1 q2 (Second # sched) (t1, t2, d) =
     (case endorse_step (q_env q2) (q_now q2) (q_user q2) (q_message q2) (q_id q2) t2 d of
        (t2', d') \<Rightarrow> interleave_endorsement q1 q2 sched (t1, t2', d'))"

subsection \<open>Sample data\<close>

text \<open>
  A small database: two administrators, the owner of one pending activity with 450
  points, and a further user; and the same database once the activity has been approved
  for 100 points.
\<close>

definition sample_admin :: user where
  "sample_admin = \<lparr>u_id = 1, fullName = ''Admin'', civicPoints = 0, civicRank = Citizen\<rparr>"

definition second_admin :: user where
  "second_admin = \<lparr>u_id = 4, fullName = ''Second admin'', civicPoints = 0, civicRank = Citizen\<rparr>"

definition sample_owner :: user where
  "sample_owner = \<lparr>u_id = 2, fullName = ''Bo'', civicPoints = 450, civicRank = Citizen\<rparr>"

definition sample_peer :: user where
  "sample_peer = \<lparr>u_id = 3, fullName = ''Cy'', civicPoints = 0, civicRank = Citizen\<rparr>"

definition sample_activity :: activity where
  "sample_activity =
     \<lparr>a_id = 7, a_user = 2, title = ''Park cleanup'', status = pending, pointsAwarded = 0,
      verifiedBy = None, verifiedAt = None, rejectionReason = None, endorsements = []\<rparr>"

definition sample_db :: db where
  "sample_db =
     \<lparr>activities = [sample_activity],
      users = [sample_admin, sample_owner, sample_peer, second_admin],
      notifications = []\<rparr>"

definition sample_approved :: activity where
  "sample_approved =
     sample_activity\<lparr>status := approved, pointsAwarded := 100,
                      verifiedBy := Some 1, verifiedAt := Some 1000\<rparr>"

definition sample_db_approved :: db where
  "sample_db_approved =
     \<lparr>activities = [sample_approved],
      users = [sample_admin, sample_owner\<lparr>civicPoints := 550, civicRank := Helper\<rparr>,
               sample_peer, second_admin],
      notifications = []\<rparr>"

definition sample_env :: env where
  "sample_env = \<lparr>POINTS_PER_GOOD_DEED = Some ''100'', POINTS_PER_ENDORSEMENT = Some ''10''\<rparr>"

definition zero_env :: env where
  "zero_env = \<lparr>POINTS_PER_GOOD_DEED = Some ''0'', POINTS_PER_ENDORSEMENT = None\<rparr>"

text \<open>
  The specification's example for the stats: user 2 has three approved activities with
  2, 0 and 5 endorsements and one pending activity; user 3 has one approved activity.
\<close>

definition sample_endorsements :: "nat \<Rightarrow> endorsement list" where
  "sample_endorsements n =
     map (\<lambda>k. \<lparr>e_user = 10 + k, e_message = [], pointsGiven = 10, e_createdAt = 0\<rparr>) [0..<n]"

definition stats_activity :: "nat \<Rightarrow> nat \<Rightarrow> status \<Rightarrow> nat \<Rightarrow> activity" where
  "stats_activity i uid st n =
     \<lparr>a_id = i, a_user = uid, title = ''Deed'', status = st, pointsAwarded = 0,
      verifiedBy = None, verifiedAt = None, rejectionReason = None,
      endorsements = sample_endorsements n\<rparr>"

definition stats_db :: db where
  "stats_db =
     \<lparr>activities =
        [stats_activity 1 2 approved 2, stats_activity 2 3 approved 4,
         stats_activity 3 2 pending 0, stats_activity 4 2 approved 0,
         stats_activity 5 2 rejected 0, stats_activity 6 2 approved 5],
      users = [sample_admin, sample_owner, sample_peer], notifications = []\<rparr>"

text \<open>Two administrators' approval requests for the sample activity.\<close>

definition first_request :: approve_request where
  "first_request = \<lparr>r_env = sample_env, r_now = 1000, r_user = sample_admin, r_id = 7\<rparr>"

definition second_request :: approve_request where
  "second_request =
     \<lparr>r_env = sample_env, r_now = 1001, r_user = second_admin, r_id = 7\<rparr>"

text \<open>
  The owner with two activities, the pending one and an approved one, and a request
  of the third user to endorse the approved one; and the database with the approved
  activity in which that user has a full name of 471 characters.
\<close>

definition sample_endorsable :: activity where
  "sample_endorsable = sample_approved\<lparr>a_id := 8, title := ''Food drive''\<rparr>"

definition sample_db_two :: db where
  "sample_db_two =
     \<lparr>activities = [sample_activity, sample_endorsable],
      users = [sample_admin, sample_owner, sample_peer, second_admin],
      notifications = []\<rparr>"

definition endorsement_request :: endorse_request where
  "endorsement_request =
     \<lparr>q_env = sample_env, q_now = 1001, q_user = sample_peer, q_message = None, q_id = 8\<rparr>"



section \<open>Properties\<close>

subsection \<open>Storage lemmas\<close>

lemma updateCivicRank_frame:
  "u_id (updateCivicRank u) = u_id u"
  "fullName (updateCivicRank u) = fullName u"
  "civicPoints (updateCivicRank u) = civicPoints u"
  by (simp_all add: updateCivicRank_def Let_def)

lemma updateCivicRank_idem: "updateCivicRank (updateCivicRank u) = updateCivicRank u"
  by (simp add: updateCivicRank_def Let_def)

lemma find_key_eq: "find (\<lambda>x. key x = i) xs = Some x \<Longrightarrow> key x = i"
  by (induction xs) (auto split: if_splits)

lemma find_map_update:
  assumes "\<And>s. key (f s) = key s"
  shows "find (\<lambda>x. key x = j) (map (\<lambda>s. if key s = i then f s else s) xs)
         = (if j = i then map_option f (find (\<lambda>x. key x = j) xs) else find (\<lambda>x. key x = j) xs)"
  using assms by (induction xs) auto

lemma findActivity_id: "findActivity i d = Some a \<Longrightarrow> a_id a = i"
  unfolding findActivity_def by (rule find_key_eq)

lemma findUser_id: "findUser i d = Some u \<Longrightarrow> u_id u = i"
  unfolding findUser_def by (rule find_key_eq)

lemma merge_activity_id [simp]: "a_id (merge_activity l m s) = a_id s"
  by (simp add: merge_activity_def)

lemma merge_user_id [simp]: "u_id (merge_user l m s) = u_id s"
  by (simp add: merge_user_def)

lemma merge_activity_self:
  assumes "a_id m = a_id l" "a_user m = a_user l" "title m = title l"
    "endorsements m = endorsements l @ es"
  shows "merge_activity l m l = m"
  using assms by (simp add: merge_activity_def)

lemma merge_user_self:
  assumes "u_id m = u_id l" "fullName m = fullName l"
  shows "merge_user l m l = m"
  using assms by (simp add: merge_user_def)

lemma findUser_activities_update [simp]: "findUser j (d\<lparr>activities := xs\<rparr>) = findUser j d"
  by (simp add: findUser_def)

lemma findUser_notifications_update [simp]: "findUser j (d\<lparr>notifications := xs\<rparr>) = findUser j d"
  by (simp add: findUser_def)

lemma findActivity_users_update [simp]: "findActivity j (d\<lparr>users := xs\<rparr>) = findActivity j d"
  by (simp add: findActivity_def)

lemma findActivity_notifications_update [simp]: "findActivity j (d\<lparr>notifications := xs\<rparr>) = findActivity j d"
  by (simp add: findActivity_def)

lemma findActivity_saved:
  assumes "findActivity i d = Some l" "a_id m = a_id l" "a_user m = a_user l" "title m = title l"
    "endorsements m = endorsements l @ es" "activity_save l m d = Inr d1"
  shows "findActivity j d1 = (if j = i then Some m else findActivity j d)"
proof -
  have i: "a_id l = i" using assms(1) by (rule findActivity_id)
  have d1: "d1 = d\<lparr>activities := map (\<lambda>s. if a_id s = i then merge_activity l m s else s) (activities d)\<rparr>"
    using assms(6) i assms(2) by (simp add: activity_save_def split: if_splits)
  have "find (\<lambda>x. a_id x = j) (map (\<lambda>s. if a_id s = i then merge_activity l m s else s) (activities d))
        = (if j = i then map_option (merge_activity l m) (find (\<lambda>x. a_id x = j) (activities d))
           else find (\<lambda>x. a_id x = j) (activities d))"
    by (rule find_map_update) simp
  then show ?thesis
    using assms(1) merge_activity_self [OF assms(2-5)] by (simp add: d1 findActivity_def)
qed

lemma findUser_saved:
  assumes "findUser i d = Some l" "u_id m = u_id l" "fullName m = fullName l"
  shows "findUser j (user_save l m d) = (if j = i then Some m else findUser j d)"
proof -
  have i: "u_id l = i" using assms(1) by (rule findUser_id)
  have "find (\<lambda>x. u_id x = j) (map (\<lambda>s. if u_id s = i then merge_user l m s else s) (users d))
        = (if j = i then map_option (merge_user l m) (find (\<lambda>x. u_id x = j) (users d))
           else find (\<lambda>x. u_id x = j) (users d))"
    by (rule find_map_update) simp
  then show ?thesis
    using assms(1) merge_user_self [OF assms(2,3)] i assms(2) by (simp add: user_save_def findUser_def)
qed

lemma user_save_frame [simp]:
  "activities (user_save l m d) = activities d" "notifications (user_save l m d) = notifications d"
  by (simp_all add: user_save_def)

lemma findActivity_user_save [simp]: "findActivity j (user_save l m d) = findActivity j d"
  by (simp add: findActivity_def)

lemma activity_save_valid:
  "validate_activity l m \<Longrightarrow> \<exists>d1. activity_save l m d = Inr d1 \<and> users d1 = users d \<and> notifications d1 = notifications d"
  by (simp add: activity_save_def)

lemma approve_effect:
  fixes env :: env and now :: nat and v :: user and a :: activity and u :: user
  assumes "findActivity i d = Some a" "status a = pending" "findUser (a_user a) d = Some u"
  defines "p \<equiv> or_default (parseInt (POINTS_PER_GOOD_DEED env)) 100"
  defines "m \<equiv> a\<lparr>status := approved, pointsAwarded := p, verifiedBy := Some (u_id v), verifiedAt := Some now\<rparr>"
  defines "w \<equiv> updateCivicRank (u\<lparr>civicPoints := civicPoints u + p\<rparr>)"
  shows "\<exists>d1. activity_save a m d = Inr d1 \<and>
           approveActivity env now v i d =
             (if length (approved_message m p) \<le> 500
              then ((user_save u w d1)\<lparr>notifications := notifications d @
                       [\<lparr>recipient = a_user a, sender = None, n_type = civic_approved,
                         civicActivity = i, n_message = approved_message m p\<rparr>]\<rparr>,
                    JsonActivity ''Activity approved successfully'' m)
              else (user_save u w d1, Error500 ValidationError))"
proof -
  have "validate_activity a m" by (simp add: validate_activity_def m_def)
  then obtain d1 where d1: "activity_save a m d = Inr d1" "users d1 = users d" "notifications d1 = notifications d"
    using activity_save_valid by blast
  have fu: "findUser (a_user a) d1 = Some u" using assms(3) d1(2) by (simp add: findUser_def)
  have ids: "u_id u = a_user a" "a_id a = i" using assms(1,3) findUser_id findActivity_id by auto
  show ?thesis
    using d1 fu ids assms(1,2) unfolding m_def w_def p_def approveActivity_def
    by (simp add: Let_def Notification_create_def updateCivicRank_frame)
qed

lemma reject_effect:
  fixes now :: nat and v :: user and a :: activity and reason :: "string option"
  assumes "findActivity i d = Some a" "status a = pending"
    "case reason of None \<Rightarrow> True | Some r \<Rightarrow> length r \<le> 500"
  defines "m \<equiv> a\<lparr>status := rejected,
                    rejectionReason := Some (case reason of None \<Rightarrow> ''Does not meet criteria''
                                     | Some r \<Rightarrow> if r = [] then ''Does not meet criteria'' else r),
                    verifiedBy := Some (u_id v), verifiedAt := Some now\<rparr>"
  shows "\<exists>d1. activity_save a m d = Inr d1 \<and>
           rejectActivity now v reason i d =
             (if length (rejected_message m) \<le> 500
              then (d1\<lparr>notifications := notifications d @
                       [\<lparr>recipient = a_user a, sender = None, n_type = civic_rejected,
                         civicActivity = i, n_message = rejected_message m\<rparr>]\<rparr>,
                    JsonActivity ''Activity rejected'' m)
              else (d1, Error500 ValidationError))"
proof -
  have "validate_activity a m"
    using assms(3) by (simp add: validate_activity_def m_def split: option.splits)
  then obtain d1 where d1: "activity_save a m d = Inr d1" "users d1 = users d" "notifications d1 = notifications d"
    using activity_save_valid by blast
  have ids: "a_id a = i" using assms(1) findActivity_id by auto
  show ?thesis
    using d1 ids assms(1,2) unfolding m_def rejectActivity_def
    by (simp add: Let_def Notification_create_def)
qed

lemma endorse_effect:
  fixes env :: env and now :: nat and r :: user and a :: activity and u :: user and message :: "string option"
  assumes "findActivity i d = Some a" "status a = approved" "a_user a \<noteq> u_id r"
    "\<not> list_ex (\<lambda>e. e_user e = u_id r) (endorsements a)"
    "findUser (a_user a) d = Some u"
    "case message of None \<Rightarrow> True | Some s \<Rightarrow> length s \<le> 500"
  defines "p \<equiv> or_default (parseInt (POINTS_PER_ENDORSEMENT env)) 10"
  defines "m \<equiv> a\<lparr>endorsements := endorsements a @
                   [\<lparr>e_user = u_id r, e_message = (case message of None \<Rightarrow> [] | Some s \<Rightarrow> s),
                     pointsGiven = p, e_createdAt = now\<rparr>]\<rparr>"
  defines "w \<equiv> updateCivicRank (u\<lparr>civicPoints := civicPoints u + p\<rparr>)"
  shows "\<exists>d1. activity_save a m d = Inr d1 \<and>
           endorseActivity env now r message i d =
             (if length (endorsed_message r) \<le> 500
              then ((user_save u w d1)\<lparr>notifications := notifications d @
                       [\<lparr>recipient = a_user a, sender = Some (u_id r), n_type = endorsement_type,
                         civicActivity = i, n_message = endorsed_message r\<rparr>]\<rparr>,
                    JsonActivity ''Activity endorsed successfully'' m)
              else (user_save u w d1, Error500 ValidationError))"
proof -
  have msg: "(case message of None \<Rightarrow> [] | Some s \<Rightarrow> if s = [] then [] else s)
             = (case message of None \<Rightarrow> [] | Some s \<Rightarrow> s)"
    by (simp split: option.splits)
  have "validate_activity a m"
    using assms(6) by (simp add: validate_activity_def m_def split: option.splits)
  then obtain d1 where d1: "activity_save a m d = Inr d1" "users d1 = users d" "notifications d1 = notifications d"
    using activity_save_valid by blast
  have fu: "findUser (a_user a) d1 = Some u" using assms(5) d1(2) by (simp add: findUser_def)
  have ids: "u_id u = a_user a" "a_id a = i" using assms(1,5) findUser_id findActivity_id by auto
  show ?thesis
    using d1 fu ids assms(1-4) unfolding m_def w_def p_def endorseActivity_def
    by (simp add: Let_def Notification_create_def updateCivicRank_frame msg)
qed

lemma activity_save_frame:
  assumes "activity_save l m d = Inr d1"
  shows "users d1 = users d" "notifications d1 = notifications d"
proof -
  have "d1 = d\<lparr>activities := map (\<lambda>stored. if a_id stored = a_id m
                                  then merge_activity l m stored else stored) (activities d)\<rparr>"
    using assms by (cases "validate_activity l m") (simp_all add: activity_save_def)
  then show "users d1 = users d" "notifications d1 = notifications d" by simp_all
qed

lemma findUser_users_eq: "users d1 = users d \<Longrightarrow> findUser k d1 = findUser k d"
  by (simp add: findUser_def)

lemma approve_db:
  fixes env :: env and now :: nat and v :: user and a :: activity and u :: user
  assumes "findActivity i d = Some a" "status a = pending" "findUser (a_user a) d = Some u"
  defines "p \<equiv> or_default (parseInt (POINTS_PER_GOOD_DEED env)) 100"
  defines "m \<equiv> a\<lparr>status := approved, pointsAwarded := p, verifiedBy := Some (u_id v), verifiedAt := Some now\<rparr>"
  defines "w \<equiv> updateCivicRank (u\<lparr>civicPoints := civicPoints u + p\<rparr>)"
  defines "res \<equiv> approveActivity env now v i d"
  shows "findActivity j (fst res) = (if j = i then Some m else findActivity j d)"
    and "findUser k (fst res) = (if k = a_user a then Some w else findUser k d)"
    and "snd res = (if length (approved_message m p) \<le> 500
                    then JsonActivity ''Activity approved successfully'' m
                    else Error500 ValidationError)"
proof -
  obtain d1 where d1: "activity_save a m d = Inr d1"
    and res: "res =
             (if length (approved_message m p) \<le> 500
              then ((user_save u w d1)\<lparr>notifications := notifications d @
                       [\<lparr>recipient = a_user a, sender = None, n_type = civic_approved,
                         civicActivity = i, n_message = approved_message m p\<rparr>]\<rparr>,
                    JsonActivity ''Activity approved successfully'' m)
              else (user_save u w d1, Error500 ValidationError))"
    using approve_effect [OF assms(1-3), where env = env and v = v and now = now] unfolding p_def m_def w_def res_def by blast
  have acts: "\<And>j. findActivity j d1 = (if j = i then Some m else findActivity j d)"
    by (rule findActivity_saved [OF assms(1) _ _ _ _ d1, of "[]"]) (simp_all add: m_def)
  have ud1: "users d1 = users d" using d1 by (rule activity_save_frame)
  have fu: "findUser (a_user a) d1 = Some u" "\<And>k. findUser k d1 = findUser k d"
    using assms(3) by (simp_all add: findUser_users_eq [OF ud1])
  have usrs: "\<And>k. findUser k (user_save u w d1) = (if k = a_user a then Some w else findUser k d1)"
    by (rule findUser_saved [OF fu(1)]) (simp_all add: w_def updateCivicRank_frame)
  show "findActivity j (fst res) = (if j = i then Some m else findActivity j d)"
    by (simp add: res acts)
  show "findUser k (fst res) = (if k = a_user a then Some w else findUser k d)"
    by (simp add: res usrs fu(2))
  show "snd res = (if length (approved_message m p) \<le> 500
                    then JsonActivity ''Activity approved successfully'' m
                    else Error500 ValidationError)"
    by (simp add: res)
qed

lemma endorse_db:
  fixes env :: env and now :: nat and r :: user and a :: activity and u :: user and message :: "string option"
  assumes "findActivity i d = Some a" "status a = approved" "a_user a \<noteq> u_id r"
    "\<not> list_ex (\<lambda>e. e_user e = u_id r) (endorsements a)"
    "findUser (a_user a) d = Some u"
    "case message of None \<Rightarrow> True | Some s \<Rightarrow> length s \<le> 500"
  defines "p \<equiv> or_default (parseInt (POINTS_PER_ENDORSEMENT env)) 10"
  defines "m \<equiv> a\<lparr>endorsements := endorsements a @
                   [\<lparr>e_user = u_id r, e_message = (case message of None \<Rightarrow> [] | Some s \<Rightarrow> s),
                     pointsGiven = p, e_createdAt = now\<rparr>]\<rparr>"
  defines "w \<equiv> updateCivicRank (u\<lparr>civicPoints := civicPoints u + p\<rparr>)"
  defines "res \<equiv> endorseActivity env now r message i d"
  shows "findActivity j (fst res) = (if j = i then Some m else findActivity j d)"
    and "findUser k (fst res) = (if k = a_user a then Some w else findUser k d)"
    and "snd res = (if length (endorsed_message r) \<le> 500
                    then JsonActivity ''Activity endorsed successfully'' m
                    else Error500 ValidationError)"
proof -
  obtain d1 where d1: "activity_save a m d = Inr d1"
    and res: "res =
             (if length (endorsed_message r) \<le> 500
              then ((user_save u w d1)\<lparr>notifications := notifications d @
                       [\<lparr>recipient = a_user a, sender = Some (u_id r), n_type = endorsement_type,
                         civicActivity = i, n_message = endorsed_message r\<rparr>]\<rparr>,
                    JsonActivity ''Activity endorsed successfully'' m)
              else (user_save u w d1, Error500 ValidationError))"
    using endorse_effect [OF assms(1-6), where env = env and now = now]
    unfolding p_def m_def w_def res_def by blast
  have acts: "\<And>j. findActivity j d1 = (if j = i then Some m else findActivity j d)"
    by (rule findActivity_saved [OF assms(1) _ _ _ _ d1]) (simp_all add: m_def)
  have ud1: "users d1 = users d" using d1 by (rule activity_save_frame)
  have fu: "findUser (a_user a) d1 = Some u" "\<And>k. findUser k d1 = findUser k d"
    using assms(5) by (simp_all add: findUser_users_eq [OF ud1])
  have usrs: "\<And>k. findUser k (user_save u w d1) = (if k = a_user a then Some w else findUser k d1)"
    by (rule findUser_saved [OF fu(1)]) (simp_all add: w_def updateCivicRank_frame)
  show "findActivity j (fst res) = (if j = i then Some m else findActivity j d)"
    by (simp add: res acts)
  show "findUser k (fst res) = (if k = a_user a then Some w else findUser k d)"
    by (simp add: res usrs fu(2))
  show "snd res = (if length (endorsed_message r) \<le> 500
                    then JsonActivity ''Activity endorsed successfully'' m
                    else Error500 ValidationError)"
    by (simp add: res)
qed

lemma reject_db:
  fixes now :: nat and v :: user and a :: activity and reason :: "string option"
  assumes "findActivity i d = Some a" "status a = pending"
    "case reason of None \<Rightarrow> True | Some r \<Rightarrow> length r \<le> 500"
  defines "m \<equiv> a\<lparr>status := rejected,
                    rejectionReason := Some (case reason of None \<Rightarrow> ''Does not meet criteria''
                                     | Some r \<Rightarrow> if r = [] then ''Does not meet criteria'' else r),
                    verifiedBy := Some (u_id v), verifiedAt := Some now\<rparr>"
  defines "res \<equiv> rejectActivity now v reason i d"
  shows "findActivity j (fst res) = (if j = i then Some m else findActivity j d)"
    and "users (fst res) = users d"
    and "snd res = (if length (rejected_message m) \<le> 500
                    then JsonActivity ''Activity rejected'' m
                    else Error500 ValidationError)"
proof -
  obtain d1 where d1: "activity_save a m d = Inr d1"
    and res: "res =
             (if length (rejected_message m) \<le> 500
              then (d1\<lparr>notifications := notifications d @
                       [\<lparr>recipient = a_user a, sender = None, n_type = civic_rejected,
                         civicActivity = i, n_message = rejected_message m\<rparr>]\<rparr>,
                    JsonActivity ''Activity rejected'' m)
              else (d1, Error500 ValidationError))"
    using reject_effect [OF assms(1-3), where v = v and now = now]
    unfolding m_def res_def by blast
  have acts: "\<And>j. findActivity j d1 = (if j = i then Some m else findActivity j d)"
    by (rule findActivity_saved [OF assms(1) _ _ _ _ d1, of "[]"]) (simp_all add: m_def)
  have ud1: "users d1 = users d" using d1 by (rule activity_save_frame)
  show "findActivity j (fst res) = (if j = i then Some m else findActivity j d)"
    by (simp add: res acts)
  show "users (fst res) = users d"
    by (simp add: res ud1)
  show "snd res = (if length (rejected_message m) \<le> 500
                    then JsonActivity ''Activity rejected'' m
                    else Error500 ValidationError)"
    by (simp add: res)
qed

lemmas parse_defs = parseInt_def parseInt_string_def StrWhiteSpaceChar_def radix_digit_def
  digit_value_def numeral_value_def Let_def

lemmas sample_defs = sample_admin_def second_admin_def sample_owner_def sample_peer_def
  sample_activity_def
  sample_db_def sample_approved_def sample_db_approved_def sample_env_def zero_env_def

lemma or_default_falsy:
  "a = None \<or> a = Some 0 \<Longrightarrow> or_default a b = b"
  by (auto simp: or_default_def)

lemma or_default_nonzero: "b \<noteq> 0 \<Longrightarrow> or_default a b \<noteq> 0"
  by (simp add: or_default_def split: option.splits)

lemma updateCivicRank_table:
  "0 \<le> civicPoints u \<Longrightarrow> rank_table (civicPoints u) = Some (civicRank (updateCivicRank u))"
  by (simp add: updateCivicRank_def rank_table_def Let_def)

lemma approve_activity_after:
  fixes env :: env and now :: nat and v :: user and a :: activity
  assumes "findActivity i d = Some a" "status a = pending"
  shows "findActivity i (fst (approveActivity env now v i d)) =
           Some (a\<lparr>status := approved,
                   pointsAwarded := or_default (parseInt (POINTS_PER_GOOD_DEED env)) 100,
                   verifiedBy := Some (u_id v), verifiedAt := Some now\<rparr>)"
proof (cases "findUser (a_user a) d")
  case (Some u)
  show ?thesis
    using approve_db(1) [OF assms Some, where j = i and env = env and v = v and now = now]
    by simp
next
  case None
  let ?m = "a\<lparr>status := approved,
                pointsAwarded := or_default (parseInt (POINTS_PER_GOOD_DEED env)) 100,
                verifiedBy := Some (u_id v), verifiedAt := Some now\<rparr>"
  have "validate_activity a ?m" by (simp add: validate_activity_def)
  then obtain d1 where d1: "activity_save a ?m d = Inr d1" "users d1 = users d"
    using activity_save_valid by blast
  have nu: "findUser (a_user a) d1 = None"
    using None findUser_users_eq [OF d1(2)] by simp
  have res: "approveActivity env now v i d = (d1, Error500 TypeError)"
    using assms d1(1) nu by (simp add: approveActivity_def Let_def)
  have "findActivity i d1 = (if i = i then Some ?m else findActivity i d)"
    by (rule findActivity_saved [OF assms(1) _ _ _ _ d1(1), of "[]"]) simp_all
  then show ?thesis by (simp add: res)
qed


text \<open>
  The five steps of one approval, or of one endorsement, run without another request
  in between, compute what the handler computes.
\<close>

lemma approve_alone_handler:
  "approve_alone env now v i d =
     (Responded (snd (approveActivity env now v i d)), fst (approveActivity env now v i d))"
  by (simp add: approve_alone_def approve_step_def approveActivity_def Let_def
      split: option.splits sum.splits)

lemma endorse_alone_handler:
  "endorse_alone env now r message i d =
     (Endorse_responded (snd (endorseActivity env now r message i d)),
      fst (endorseActivity env now r message i d))"
  by (simp add: endorse_alone_def endorse_step_def endorseActivity_def Let_def
      split: option.splits sum.splits)

text \<open>Evaluation of the sample requests.\<close>

lemmas safe_defs = isSafeInteger_def MAX_SAFE_INTEGER_def

lemma String_100: "String 100 = ''100''"
  by code_simp

lemmas step_defs = approve_step_def findActivity_def findUser_def activity_save_def
  validate_activity_def merge_activity_def user_save_def merge_user_def updateCivicRank_def
  Notification_create_def approved_message_def or_default_def Let_def

lemma configured_100: "parseInt (POINTS_PER_GOOD_DEED sample_env) = Some 100"
  by (simp add: sample_defs parse_defs)

lemma configured_10: "parseInt (POINTS_PER_ENDORSEMENT sample_env) = Some 10"
  by (simp add: sample_defs parse_defs)

subsection \<open>Decisions on a processed activity\<close>

text \<open>
  Claim C4. For every activity whose status is not pending (approved or rejected
  already), the approve operation and the reject operation both answer status 400 with
  the message "Activity already processed" (the specification's InvalidStateError), and
  the database after the call is the database before it: the activity record, the
  owner's civicPoints and the owner's civicRank are as they were.
\<close>

theorem C4_processed_activity_is_left_unchanged:
  assumes "findActivity i d = Some a" "status a \<noteq> pending"
  shows "approveActivity env now v i d = (d, Json 400 ''Activity already processed'')
       \<and> rejectActivity now v reason i d = (d, Json 400 ''Activity already processed'')"
  using assms by (simp add: approveActivity_def rejectActivity_def)

theorem C4_processed_activity_witness:
  "findActivity 7 sample_db_approved = Some sample_approved \<and> status sample_approved = approved
   \<and> approveActivity sample_env 2000 sample_admin 7 sample_db_approved
       = (sample_db_approved, Json 400 ''Activity already processed'')
   \<and> rejectActivity 2000 sample_admin (Some ''late'') 7 sample_db_approved
       = (sample_db_approved, Json 400 ''Activity already processed'')"
proof -
  have f: "findActivity 7 sample_db_approved = Some sample_approved"
    by (simp add: findActivity_def sample_defs)
  have s: "status sample_approved \<noteq> pending" "status sample_approved = approved"
    by (simp_all add: sample_defs)
  show ?thesis
    using C4_processed_activity_is_left_unchanged [OF f s(1)] f s(2) by simp
qed

subsection \<open>Endorsing one's own activity\<close>

text \<open>
  Claim C6, as amended. An endorsement attempt by the activity's own owner always
  answers status 400 and changes nothing. The message is "Cannot endorse your own
  activity" (the specification's ForbiddenError) when the activity is approved; when it
  is pending or rejected the status check comes first and the message is "Can only
  endorse approved activities" (the specification's InvalidStateError).
\<close>

theorem C6_own_endorsement_is_refused:
  assumes "findActivity i d = Some a" "a_user a = u_id r"
  shows "endorseActivity env now r message i d =
           (d, Json 400 (if status a = approved then ''Cannot endorse your own activity''
                         else ''Can only endorse approved activities''))"
  using assms by (simp add: endorseActivity_def)

theorem C6_own_endorsement_witness:
  "findActivity 7 sample_db_approved = Some sample_approved \<and> a_user sample_approved = 2
   \<and> status sample_approved = approved
   \<and> endorseActivity sample_env 2000 sample_owner None 7 sample_db_approved
       = (sample_db_approved, Json 400 ''Cannot endorse your own activity'')"
proof -
  have f: "findActivity 7 sample_db_approved = Some sample_approved"
    by (simp add: findActivity_def sample_defs)
  have o: "a_user sample_approved = u_id sample_owner" "a_user sample_approved = 2"
    "status sample_approved = approved"
    by (simp_all add: sample_defs)
  show ?thesis
    using C6_own_endorsement_is_refused [OF f o(1), of sample_env 2000 None] f o by simp
qed

text \<open>
  Claim C6 as stated fails on a pending activity: the owner's attempt is refused with
  the message of the status check, not with "Cannot endorse your own activity".
\<close>

theorem C6_pending_own_endorsement_counterexample:
  "findActivity 7 sample_db = Some sample_activity \<and> a_user sample_activity = u_id sample_owner
   \<and> status sample_activity = pending
   \<and> endorseActivity sample_env 2000 sample_owner None 7 sample_db
       = (sample_db, Json 400 ''Can only endorse approved activities'')
   \<and> snd (endorseActivity sample_env 2000 sample_owner None 7 sample_db)
       \<noteq> Json 400 ''Cannot endorse your own activity''"
  by (simp add: endorseActivity_def findActivity_def sample_defs)

subsection \<open>Rejecting a pending activity\<close>

text \<open>
  Claim C7, as amended. Rejecting a pending activity with no reason, or with a reason of
  at most 500 characters (the schema's bound on rejectionReason), sets status to
  rejected, sets rejectionReason to the supplied reason, or to "Does not meet criteria"
  when the reason is absent or empty, sets verifiedBy to the verifier and verifiedAt to
  the time of the call, and leaves every user document, so the owner's civicPoints and
  civicRank, unchanged.
\<close>

theorem C7_reject_sets_fields_and_keeps_points:
  assumes "findActivity i d = Some a" "status a = pending"
    "case reason of None \<Rightarrow> True | Some r \<Rightarrow> length r \<le> 500"
  shows "findActivity i (fst (rejectActivity now v reason i d)) =
           Some (a\<lparr>status := rejected,
                   rejectionReason :=
                     Some (case reason of None \<Rightarrow> ''Does not meet criteria''
                           | Some r \<Rightarrow> if r = [] then ''Does not meet criteria'' else r),
                   verifiedBy := Some (u_id v), verifiedAt := Some now\<rparr>)
       \<and> users (fst (rejectActivity now v reason i d)) = users d"
  using reject_db(1) [OF assms, of i now v] reject_db(2) [OF assms, of now v] by simp

theorem C7_reject_witness:
  "findActivity 7 sample_db = Some sample_activity \<and> status sample_activity = pending
   \<and> findActivity 7 (fst (rejectActivity 1000 sample_admin (Some ''No proof'') 7 sample_db)) =
       Some (sample_activity\<lparr>status := rejected, rejectionReason := Some ''No proof'',
                              verifiedBy := Some 1, verifiedAt := Some 1000\<rparr>)
   \<and> findActivity 7 (fst (rejectActivity 1000 sample_admin None 7 sample_db)) =
       Some (sample_activity\<lparr>status := rejected, rejectionReason := Some ''Does not meet criteria'',
                              verifiedBy := Some 1, verifiedAt := Some 1000\<rparr>)
   \<and> users (fst (rejectActivity 1000 sample_admin (Some ''No proof'') 7 sample_db)) = users sample_db"
proof -
  have f: "findActivity 7 sample_db = Some sample_activity"
    by (simp add: findActivity_def sample_defs)
  have s: "status sample_activity = pending" by (simp add: sample_defs)
  have r1: "case Some ''No proof'' of None \<Rightarrow> True | Some r \<Rightarrow> length r \<le> 500" by simp
  have r2: "case (None :: string option) of None \<Rightarrow> True | Some r \<Rightarrow> length r \<le> 500" by simp
  have v: "u_id sample_admin = 1" by (simp add: sample_defs)
  show ?thesis
    using C7_reject_sets_fields_and_keeps_points [OF f s r1, of 1000 sample_admin]
      C7_reject_sets_fields_and_keeps_points [OF f s r2, of 1000 sample_admin] f s v
    by simp
qed

text \<open>
  Claim C7 as stated fails for a supplied reason of 501 characters: the save is
  refused by the schema, the handler answers status 500 and the activity stays pending
  with no rejectionReason.
\<close>

theorem C7_long_reason_counterexample:
  "findActivity 7 sample_db = Some sample_activity \<and> status sample_activity = pending
   \<and> rejectActivity 1000 sample_admin (Some (replicate 501 CHR ''x'')) 7 sample_db
       = (sample_db, Error500 ValidationError)"
  by (simp add: rejectActivity_def findActivity_def activity_save_def validate_activity_def
      sample_defs)

subsection \<open>Approving a pending activity\<close>

text \<open>
  Claim C2, as amended. For every configured POINTS\_PER\_GOOD\_DEED that parses to an
  integer greater than zero, approving a pending activity whose owner's account exists
  sets status to approved, pointsAwarded to exactly that integer, verifiedBy to the
  verifier and verifiedAt to the time of the call, and increments the owner's
  civicPoints by exactly that integer (the rank being recomputed from the new total),
  provided the amount, the owner's total and the new total are safe integers, that is,
  of magnitude at most \<open>2^53 - 1\<close>, where a Number holds them exactly.
\<close>

theorem C2_approve_awards_configured_points:
  assumes "findActivity i d = Some a" "status a = pending" "findUser (a_user a) d = Some u"
    "parseInt (POINTS_PER_GOOD_DEED env) = Some n" "0 < n"
    "isSafeInteger n" "isSafeInteger (civicPoints u)" "isSafeInteger (civicPoints u + n)"
  shows "findActivity i (fst (approveActivity env now v i d)) =
           Some (a\<lparr>status := approved, pointsAwarded := n,
                   verifiedBy := Some (u_id v), verifiedAt := Some now\<rparr>)
       \<and> findUser (a_user a) (fst (approveActivity env now v i d)) =
           Some (updateCivicRank (u\<lparr>civicPoints := civicPoints u + n\<rparr>))
       \<and> civicPoints (updateCivicRank (u\<lparr>civicPoints := civicPoints u + n\<rparr>)) = civicPoints u + n"
proof -
  have p: "or_default (parseInt (POINTS_PER_GOOD_DEED env)) 100 = n"
    using assms(4,5) by (simp add: or_default_def)
  show ?thesis
    using approve_db(1) [OF assms(1-3), where j = i and env = env and v = v and now = now]
      approve_db(2) [OF assms(1-3), where k = "a_user a" and env = env and v = v and now = now]
    by (simp add: p updateCivicRank_frame)
qed

theorem C2_approve_witness:
  "findActivity 7 sample_db = Some sample_activity \<and> status sample_activity = pending
   \<and> findUser 2 sample_db = Some sample_owner
   \<and> parseInt (POINTS_PER_GOOD_DEED sample_env) = Some 100
   \<and> isSafeInteger 100 \<and> isSafeInteger (civicPoints sample_owner)
   \<and> isSafeInteger (civicPoints sample_owner + 100)
   \<and> findActivity 7 (fst (approveActivity sample_env 1000 sample_admin 7 sample_db)) =
       Some sample_approved
   \<and> findUser 2 (fst (approveActivity sample_env 1000 sample_admin 7 sample_db)) =
       Some (sample_owner\<lparr>civicPoints := 550, civicRank := Helper\<rparr>)"
proof -
  have f: "findActivity 7 sample_db = Some sample_activity"
    by (simp add: findActivity_def sample_defs)
  have s: "status sample_activity = pending" by (simp add: sample_defs)
  have o: "findUser (a_user sample_activity) sample_db = Some sample_owner"
    by (simp add: findUser_def sample_defs)
  have c: "parseInt (POINTS_PER_GOOD_DEED sample_env) = Some 100"
    by (rule configured_100)
  have n: "(0::int) < 100" by simp
  have b: "isSafeInteger 100" "isSafeInteger (civicPoints sample_owner)"
    "isSafeInteger (civicPoints sample_owner + 100)"
    by (simp_all add: safe_defs sample_defs)
  show ?thesis
    using C2_approve_awards_configured_points [OF f s o c n b, where now = 1000 and v = sample_admin]
      f s o c b
    by (simp add: sample_defs updateCivicRank_def)
qed

text \<open>
  Claim C2 as stated fails for the configured constant 0, which is within the claim's
  range: the handler's \<open>|| 100\<close> replaces it, pointsAwarded becomes 100 and the owner
  goes from 450 to 550 points.
\<close>

theorem C2_zero_configuration_counterexample:
  "parseInt (POINTS_PER_GOOD_DEED zero_env) = Some 0
   \<and> findActivity 7 sample_db = Some sample_activity \<and> status sample_activity = pending
   \<and> findUser 2 sample_db = Some sample_owner \<and> civicPoints sample_owner = 450
   \<and> map_option pointsAwarded
        (findActivity 7 (fst (approveActivity zero_env 1000 sample_admin 7 sample_db))) = Some 100
   \<and> map_option civicPoints
        (findUser 2 (fst (approveActivity zero_env 1000 sample_admin 7 sample_db))) = Some 550"
proof -
  have f: "findActivity 7 sample_db = Some sample_activity"
    by (simp add: findActivity_def sample_defs)
  have s: "status sample_activity = pending" by (simp add: sample_defs)
  have o: "findUser (a_user sample_activity) sample_db = Some sample_owner"
    by (simp add: findUser_def sample_defs)
  have c: "parseInt (POINTS_PER_GOOD_DEED zero_env) = Some 0"
    by (simp add: sample_defs parse_defs)
  show ?thesis
    using approve_db(1) [OF f s o, where j = 7 and env = zero_env and v = sample_admin and now = 1000]
      approve_db(2) [OF f s o, where k = 2 and env = zero_env and v = sample_admin and now = 1000]
      f s o c
    by (simp add: or_default_def updateCivicRank_frame) (simp add: sample_defs)
qed

subsection \<open>The hardcoded defaults\<close>

text \<open>
  Claim C10. When the configured constant is absent or non-numeric (\<open>parseInt\<close> gives
  NaN) or parses to 0, approving a pending activity awards exactly 100 points and a first
  endorsement awards exactly 10 points; and whatever the configuration, the amount
  awarded by either operation is never 0.
\<close>

theorem C10_falsy_configuration_awards_the_defaults:
  assumes "findActivity i d = Some a" "status a = pending" "findUser (a_user a) d = Some u"
    and "findActivity j e = Some b" "status b = approved" "a_user b \<noteq> u_id r"
      "\<not> list_ex (\<lambda>x. e_user x = u_id r) (endorsements b)" "findUser (a_user b) e = Some w"
      "case message of None \<Rightarrow> True | Some s \<Rightarrow> length s \<le> 500"
  shows "(parseInt (POINTS_PER_GOOD_DEED env) = None \<or> parseInt (POINTS_PER_GOOD_DEED env) = Some 0 \<longrightarrow>
            findActivity i (fst (approveActivity env now v i d)) =
              Some (a\<lparr>status := approved, pointsAwarded := 100,
                      verifiedBy := Some (u_id v), verifiedAt := Some now\<rparr>)
          \<and> findUser (a_user a) (fst (approveActivity env now v i d)) =
              Some (updateCivicRank (u\<lparr>civicPoints := civicPoints u + 100\<rparr>)))
       \<and> (parseInt (POINTS_PER_ENDORSEMENT env) = None \<or> parseInt (POINTS_PER_ENDORSEMENT env) = Some 0 \<longrightarrow>
            findActivity j (fst (endorseActivity env now r message j e)) =
              Some (b\<lparr>endorsements := endorsements b @
                      [\<lparr>e_user = u_id r, e_message = (case message of None \<Rightarrow> [] | Some s \<Rightarrow> s),
                        pointsGiven = 10, e_createdAt = now\<rparr>]\<rparr>)
          \<and> findUser (a_user b) (fst (endorseActivity env now r message j e)) =
              Some (updateCivicRank (w\<lparr>civicPoints := civicPoints w + 10\<rparr>)))
       \<and> (\<exists>a'. findActivity i (fst (approveActivity env now v i d)) = Some a'
              \<and> status a' = approved \<and> pointsAwarded a' \<noteq> 0)
       \<and> (\<exists>b' x. findActivity j (fst (endorseActivity env now r message j e)) = Some b'
              \<and> endorsements b' = endorsements b @ [x] \<and> e_user x = u_id r
              \<and> pointsGiven x \<noteq> 0)"
proof -
  note A1 = approve_db(1) [OF assms(1-3), where j = i and env = env and v = v and now = now]
  note A2 = approve_db(2) [OF assms(1-3), where k = "a_user a" and env = env and v = v and now = now]
  note E1 = endorse_db(1) [OF assms(4-9), where j = j and env = env and now = now]
  note E2 = endorse_db(2) [OF assms(4-9), where k = "a_user b" and env = env and now = now]
  have n1: "or_default (parseInt (POINTS_PER_GOOD_DEED env)) 100 \<noteq> 0"
    and n2: "or_default (parseInt (POINTS_PER_ENDORSEMENT env)) 10 \<noteq> 0"
    by (simp_all add: or_default_nonzero)
  show ?thesis
    using A1 A2 E1 E2 n1 n2 by (auto simp: or_default_falsy)
qed

theorem C10_falsy_configuration_witness:
  "parseInt (POINTS_PER_GOOD_DEED zero_env) = Some 0
   \<and> parseInt (POINTS_PER_ENDORSEMENT zero_env) = None
   \<and> parseInt (Some ''ten'') = None
   \<and> map_option pointsAwarded
        (findActivity 7 (fst (approveActivity zero_env 1000 sample_admin 7 sample_db))) = Some 100
   \<and> map_option civicPoints
        (findUser 2 (fst (approveActivity zero_env 1000 sample_admin 7 sample_db))) = Some 550
   \<and> map_option (\<lambda>x. map pointsGiven (endorsements x))
        (findActivity 7 (fst (endorseActivity zero_env 1000 sample_peer None 7 sample_db_approved)))
       = Some [10]
   \<and> map_option civicPoints
        (findUser 2 (fst (endorseActivity zero_env 1000 sample_peer None 7 sample_db_approved)))
       = Some 560"
proof -
  have f: "findActivity 7 sample_db = Some sample_activity"
    by (simp add: findActivity_def sample_defs)
  have s: "status sample_activity = pending" by (simp add: sample_defs)
  have o: "findUser (a_user sample_activity) sample_db = Some sample_owner"
    by (simp add: findUser_def sample_defs)
  have f': "findActivity 7 sample_db_approved = Some sample_approved"
    by (simp add: findActivity_def sample_defs)
  have s': "status sample_approved = approved" by (simp add: sample_defs)
  have n': "a_user sample_approved \<noteq> u_id sample_peer" by (simp add: sample_defs)
  have e': "\<not> list_ex (\<lambda>x. e_user x = u_id sample_peer) (endorsements sample_approved)"
    by (simp add: sample_defs)
  have o': "findUser (a_user sample_approved) sample_db_approved
              = Some (sample_owner\<lparr>civicPoints := 550, civicRank := Helper\<rparr>)"
    by (simp add: findUser_def sample_defs)
  have m': "case (None :: string option) of None \<Rightarrow> True | Some s \<Rightarrow> length s \<le> 500" by simp
  have c: "parseInt (POINTS_PER_GOOD_DEED zero_env) = Some 0"
    "parseInt (POINTS_PER_ENDORSEMENT zero_env) = None" "parseInt (Some ''ten'') = None"
    by (simp_all add: sample_defs parse_defs)
  have i: "a_user sample_activity = 2" "a_user sample_approved = 2"
    "civicPoints sample_owner = 450" "endorsements sample_approved = []"
    by (simp_all add: sample_defs)
  show ?thesis
    using C10_falsy_configuration_awards_the_defaults [OF f s o f' s' n' e' o' m',
        where env = zero_env and now = 1000 and v = sample_admin] c
    by (simp add: i updateCivicRank_frame)
qed

subsection \<open>Endorsing an approved activity\<close>




subsection \<open>Rank after a change of points\<close>

lemma approve_users_cases:
  "users (fst (approveActivity env now v i d)) = users d
   \<or> (\<exists>a u. findActivity i d = Some a \<and> status a = pending \<and> findUser (a_user a) d = Some u)"
proof (cases "findActivity i d")
  case None
  then show ?thesis by (simp add: approveActivity_def)
next
  case (Some a)
  show ?thesis
  proof (cases "status a = pending")
    case False
    then show ?thesis using Some by (simp add: approveActivity_def)
  next
    case True
    show ?thesis
    proof (cases "findUser (a_user a) d")
      case None
      then show ?thesis
        using Some True
        by (simp add: approveActivity_def Let_def activity_save_def validate_activity_def)
    next
      case (Some u)
      then show ?thesis using \<open>findActivity i d = Some a\<close> True by blast
    qed
  qed
qed

lemma endorse_users_cases:
  "users (fst (endorseActivity env now r message i d)) = users d
   \<or> (\<exists>a u. findActivity i d = Some a \<and> status a = approved \<and> a_user a \<noteq> u_id r
        \<and> \<not> list_ex (\<lambda>x. e_user x = u_id r) (endorsements a)
        \<and> findUser (a_user a) d = Some u
        \<and> (case message of None \<Rightarrow> True | Some s \<Rightarrow> length s \<le> 500))"
proof (cases "findActivity i d")
  case None
  then show ?thesis by (simp add: endorseActivity_def)
next
  case (Some a)
  show ?thesis
  proof (cases "status a = approved \<and> a_user a \<noteq> u_id r
                 \<and> \<not> list_ex (\<lambda>x. e_user x = u_id r) (endorsements a)")
    case False
    then show ?thesis using Some by (auto simp: endorseActivity_def)
  next
    case True
    show ?thesis
    proof (cases "case message of None \<Rightarrow> True | Some s \<Rightarrow> length s \<le> 500")
      case False
      then obtain s where s: "message = Some s" "\<not> length s \<le> 500"
        by (cases message) simp_all
      then have "s \<noteq> []" by auto
      then show ?thesis
        using Some True s
        by (simp add: endorseActivity_def Let_def activity_save_def validate_activity_def)
    next
      case valid: True
      show ?thesis
      proof (cases "findUser (a_user a) d")
        case None
        have "validate_activity a
                (a\<lparr>endorsements := endorsements a @
                   [\<lparr>e_user = u_id r,
                     e_message = (case message of None \<Rightarrow> [] | Some m \<Rightarrow> if m = [] then [] else m),
                     pointsGiven = or_default (parseInt (POINTS_PER_ENDORSEMENT env)) 10,
                     e_createdAt = now\<rparr>]\<rparr>)"
          using valid by (simp add: validate_activity_def split: option.splits)
        then show ?thesis
          using Some True None
          by (simp add: endorseActivity_def Let_def activity_save_def)
      next
        case (Some u)
        then show ?thesis using \<open>findActivity i d = Some a\<close> True valid by blast
      qed
    qed
  qed
qed

text \<open>
  Claim C1, as amended. The two operations that change a user's civicPoints are the
  approval and the endorsement. When one of them runs with no other request's storage
  operations between its own, then whatever its response, every user whose civicPoints
  differ after it from before has the civicRank recomputed and stored with them: the
  stored civicRank is the rank table applied to the stored civicPoints (the table has an
  entry for every total from 0 on), and running the rank method on the stored document
  would change nothing.
\<close>

theorem C1_point_changes_persist_the_rank:
  "(findUser k d = Some u \<and> findUser k (fst (approveActivity env now v i d)) = Some u'
      \<and> civicPoints u' \<noteq> civicPoints u
    \<longrightarrow> civicRank u' = civicRank (updateCivicRank u')
        \<and> (0 \<le> civicPoints u' \<longrightarrow> rank_table (civicPoints u') = Some (civicRank u')))
   \<and> (findUser k d = Some u \<and> findUser k (fst (endorseActivity env now r message i d)) = Some u'
      \<and> civicPoints u' \<noteq> civicPoints u
    \<longrightarrow> civicRank u' = civicRank (updateCivicRank u')
        \<and> (0 \<le> civicPoints u' \<longrightarrow> rank_table (civicPoints u') = Some (civicRank u')))
   \<and> approve_alone env now v i d =
        (Responded (snd (approveActivity env now v i d)), fst (approveActivity env now v i d))
   \<and> endorse_alone env now r message i d =
        (Endorse_responded (snd (endorseActivity env now r message i d)),
         fst (endorseActivity env now r message i d))"
proof (intro conjI impI)
  assume h: "findUser k d = Some u \<and> findUser k (fst (approveActivity env now v i d)) = Some u'
      \<and> civicPoints u' \<noteq> civicPoints u"
  have "\<exists>w. u' = updateCivicRank w"
    using approve_users_cases [of env now v i d]
  proof
    assume "users (fst (approveActivity env now v i d)) = users d"
    then have "findUser k (fst (approveActivity env now v i d)) = findUser k d"
      by (rule findUser_users_eq)
    then show ?thesis using h by simp
  next
    assume "\<exists>a u. findActivity i d = Some a \<and> status a = pending \<and> findUser (a_user a) d = Some u"
    then obtain a w where a: "findActivity i d = Some a" "status a = pending"
      "findUser (a_user a) d = Some w" by blast
    show ?thesis
      using approve_db(2) [OF a, where k = k and env = env and v = v and now = now] h
      by (auto split: if_splits)
  qed
  then obtain w where w: "u' = updateCivicRank w" by blast
  show "civicRank u' = civicRank (updateCivicRank u')"
    by (simp add: w updateCivicRank_idem)
  assume "0 \<le> civicPoints u'"
  then show "rank_table (civicPoints u') = Some (civicRank u')"
    using updateCivicRank_table [of w] by (simp add: w updateCivicRank_frame)
next
  assume h: "findUser k d = Some u \<and> findUser k (fst (endorseActivity env now r message i d)) = Some u'
      \<and> civicPoints u' \<noteq> civicPoints u"
  have "\<exists>w. u' = updateCivicRank w"
    using endorse_users_cases [of env now r message i d]
  proof
    assume "users (fst (endorseActivity env now r message i d)) = users d"
    then have "findUser k (fst (endorseActivity env now r message i d)) = findUser k d"
      by (rule findUser_users_eq)
    then show ?thesis using h by simp
  next
    assume "\<exists>a u. findActivity i d = Some a \<and> status a = approved \<and> a_user a \<noteq> u_id r
        \<and> \<not> list_ex (\<lambda>x. e_user x = u_id r) (endorsements a)
        \<and> findUser (a_user a) d = Some u
        \<and> (case message of None \<Rightarrow> True | Some s \<Rightarrow> length s \<le> 500)"
    then obtain a w where a: "findActivity i d = Some a" "status a = approved" "a_user a \<noteq> u_id r"
      "\<not> list_ex (\<lambda>x. e_user x = u_id r) (endorsements a)"
      "findUser (a_user a) d = Some w"
      "case message of None \<Rightarrow> True | Some s \<Rightarrow> length s \<le> 500" by blast
    show ?thesis
      using endorse_db(2) [OF a, where k = k and env = env and now = now] h
      by (auto split: if_splits)
  qed
  then obtain w where w: "u' = updateCivicRank w" by blast
  show "civicRank u' = civicRank (updateCivicRank u')"
    by (simp add: w updateCivicRank_idem)
  assume "0 \<le> civicPoints u'"
  then show "rank_table (civicPoints u') = Some (civicRank u')"
    using updateCivicRank_table [of w] by (simp add: w updateCivicRank_frame)
next
  show "approve_alone env now v i d =
        (Responded (snd (approveActivity env now v i d)), fst (approveActivity env now v i d))"
    by (rule approve_alone_handler)
next
  show "endorse_alone env now r message i d =
        (Endorse_responded (snd (endorseActivity env now r message i d)),
         fst (endorseActivity env now r message i d))"
    by (rule endorse_alone_handler)
qed

theorem C1_point_changes_witness:
  "findUser 2 sample_db = Some sample_owner
   \<and> findUser 2 (fst (approveActivity sample_env 1000 sample_admin 7 sample_db))
       = Some (sample_owner\<lparr>civicPoints := 550, civicRank := Helper\<rparr>)
   \<and> civicPoints (sample_owner\<lparr>civicPoints := 550, civicRank := Helper\<rparr>) \<noteq> civicPoints sample_owner
   \<and> rank_table 550 = Some Helper
   \<and> findUser 2 sample_db_approved = Some (sample_owner\<lparr>civicPoints := 550, civicRank := Helper\<rparr>)
   \<and> findUser 2 (fst (endorseActivity sample_env 2000 sample_peer None 7 sample_db_approved))
       = Some (sample_owner\<lparr>civicPoints := 560, civicRank := Helper\<rparr>)
   \<and> rank_table 560 = Some Helper"
proof -
  have f: "findActivity 7 sample_db = Some sample_activity"
    by (simp add: findActivity_def sample_defs)
  have s: "status sample_activity = pending" by (simp add: sample_defs)
  have o: "findUser (a_user sample_activity) sample_db = Some sample_owner"
    by (simp add: findUser_def sample_defs)
  have f': "findActivity 7 sample_db_approved = Some sample_approved"
    by (simp add: findActivity_def sample_defs)
  have s': "status sample_approved = approved" by (simp add: sample_defs)
  have n': "a_user sample_approved \<noteq> u_id sample_peer" by (simp add: sample_defs)
  have e': "\<not> list_ex (\<lambda>x. e_user x = u_id sample_peer) (endorsements sample_approved)"
    by (simp add: sample_defs)
  have o': "findUser (a_user sample_approved) sample_db_approved
              = Some (sample_owner\<lparr>civicPoints := 550, civicRank := Helper\<rparr>)"
    by (simp add: findUser_def sample_defs)
  have m': "case (None :: string option) of None \<Rightarrow> True | Some s \<Rightarrow> length s \<le> 500" by simp
  have c: "or_default (parseInt (POINTS_PER_GOOD_DEED sample_env)) 100 = 100"
    "or_default (parseInt (POINTS_PER_ENDORSEMENT sample_env)) 10 = 10"
    by (simp_all add: configured_100 configured_10 or_default_def)
  have i: "a_user sample_activity = 2" "a_user sample_approved = 2"
    by (simp_all add: sample_defs)
  have a1: "findUser 2 (fst (approveActivity sample_env 1000 sample_admin 7 sample_db))
       = Some (sample_owner\<lparr>civicPoints := 550, civicRank := Helper\<rparr>)"
    using approve_db(2) [OF f s o, where k = 2 and env = sample_env and v = sample_admin and now = 1000]
    by (simp add: i c) (simp add: sample_defs updateCivicRank_def)
  have a2: "findUser 2 (fst (endorseActivity sample_env 2000 sample_peer None 7 sample_db_approved))
       = Some (sample_owner\<lparr>civicPoints := 560, civicRank := Helper\<rparr>)"
    using endorse_db(2) [OF f' s' n' e' o' m', where k = 2 and env = sample_env and now = 2000]
    by (simp add: i c) (simp add: sample_defs updateCivicRank_def)
  have p: "civicPoints (sample_owner\<lparr>civicPoints := 550, civicRank := Helper\<rparr>) \<noteq> civicPoints sample_owner"
    "civicPoints (sample_owner\<lparr>civicPoints := 560, civicRank := Helper\<rparr>)
       \<noteq> civicPoints (sample_owner\<lparr>civicPoints := 550, civicRank := Helper\<rparr>)"
    by (simp_all add: sample_defs)
  show ?thesis
    using C1_point_changes_persist_the_rank
      [where k = 2 and d = sample_db and u = sample_owner
         and u' = "sample_owner\<lparr>civicPoints := 550, civicRank := Helper\<rparr>"
         and env = sample_env and now = 1000 and v = sample_admin and i = 7]
      C1_point_changes_persist_the_rank
      [where k = 2 and d = sample_db_approved
         and u = "sample_owner\<lparr>civicPoints := 550, civicRank := Helper\<rparr>"
         and u' = "sample_owner\<lparr>civicPoints := 560, civicRank := Helper\<rparr>"
         and env = sample_env and now = 2000 and r = sample_peer and message = None and i = 7]
      a1 a2 p o o'
    by (simp add: i)
qed

text \<open>
  Claim C1 as stated fails for operations whose storage operations interleave. An
  approval (100 points) and an endorsement (10 points) for the same owner both read the
  owner at 450 points, Citizen. The approval saves 550 points and the rank Helper. The
  endorsement then saves its total of 460; its own copy's rank went from Citizen to
  Citizen, so the rank is not among the paths it writes. Both answer status 200, and the
  owner is left with 460 points and the rank Helper, where the table gives Citizen.
\<close>

theorem C1_interleaved_award_counterexample:
  "(case interleave_endorsement first_request endorsement_request
           [First, First, First, Second, Second, Second, First, First, Second, Second]
           (Find_activity, Endorse_find_activity, sample_db_two) of
      (t1, t2, d) \<Rightarrow>
        t1 = Responded (JsonActivity ''Activity approved successfully''
               (sample_activity\<lparr>status := approved, pointsAwarded := 100,
                                 verifiedBy := Some 1, verifiedAt := Some 1000\<rparr>))
      \<and> t2 = Endorse_responded (JsonActivity ''Activity endorsed successfully''
               (sample_endorsable\<lparr>endorsements :=
                  [\<lparr>e_user = 3, e_message = [], pointsGiven = 10, e_createdAt = 1001\<rparr>]\<rparr>))
      \<and> findUser 2 sample_db_two = Some sample_owner \<and> civicPoints sample_owner = 450
      \<and> findUser 2 d = Some (sample_owner\<lparr>civicPoints := 460, civicRank := Helper\<rparr>))
   \<and> rank_table 460 = Some Citizen"
  by (simp add: first_request_def endorsement_request_def sample_endorsable_def sample_db_two_def
      configured_100 configured_10 String_100 step_defs endorse_step_def endorsed_message_def
      rank_table_def sample_admin_def second_admin_def sample_owner_def sample_peer_def
      sample_activity_def sample_approved_def)

subsection \<open>Two decisions on one activity\<close>

text \<open>
  Claim C9, as amended. The pending-to-approved/rejected transition is a read of the
  activity, a check of the status of the copy read, and a later save of the modified
  fields that is not guarded by the stored status. Of two decision attempts on the same
  pending activity that run one after the other, where the first is an approval, or a
  rejection with no reason or a reason of at most 500 characters, the first makes the
  transition and the second, approve or reject, answers status 400 "Activity already
  processed" and changes nothing.
\<close>

theorem C9_decisions_one_after_the_other:
  assumes "findActivity i d = Some a" "status a = pending"
  shows "approve_alone env now v i d =
           (Responded (snd (approveActivity env now v i d)), fst (approveActivity env now v i d))
       \<and> map_option status (findActivity i (fst (approveActivity env now v i d))) = Some approved
       \<and> approveActivity env' now' v' i (fst (approveActivity env now v i d)) =
           (fst (approveActivity env now v i d), Json 400 ''Activity already processed'')
       \<and> rejectActivity now' v' reason' i (fst (approveActivity env now v i d)) =
           (fst (approveActivity env now v i d), Json 400 ''Activity already processed'')
       \<and> ((case reason of None \<Rightarrow> True | Some s \<Rightarrow> length s \<le> 500) \<longrightarrow>
            map_option status (findActivity i (fst (rejectActivity now v reason i d))) = Some rejected
          \<and> approveActivity env' now' v' i (fst (rejectActivity now v reason i d)) =
              (fst (rejectActivity now v reason i d), Json 400 ''Activity already processed'')
          \<and> rejectActivity now' v' reason' i (fst (rejectActivity now v reason i d)) =
              (fst (rejectActivity now v reason i d), Json 400 ''Activity already processed''))"
proof -
  note A = approve_activity_after [OF assms, where env = env and v = v and now = now]
  have first: "map_option status (findActivity i (fst (approveActivity env now v i d))) = Some approved
       \<and> approveActivity env' now' v' i (fst (approveActivity env now v i d)) =
           (fst (approveActivity env now v i d), Json 400 ''Activity already processed'')
       \<and> rejectActivity now' v' reason' i (fst (approveActivity env now v i d)) =
           (fst (approveActivity env now v i d), Json 400 ''Activity already processed'')"
    using A by (simp add: approveActivity_def rejectActivity_def)
  have second: "map_option status (findActivity i (fst (rejectActivity now v reason i d))) = Some rejected
          \<and> approveActivity env' now' v' i (fst (rejectActivity now v reason i d)) =
              (fst (rejectActivity now v reason i d), Json 400 ''Activity already processed'')
          \<and> rejectActivity now' v' reason' i (fst (rejectActivity now v reason i d)) =
              (fst (rejectActivity now v reason i d), Json 400 ''Activity already processed'')"
    if valid: "case reason of None \<Rightarrow> True | Some s \<Rightarrow> length s \<le> 500"
    using reject_db(1) [OF assms valid, where j = i and v = v and now = now]
    by (simp add: approveActivity_def rejectActivity_def)
  show ?thesis
    using first second by (simp add: approve_alone_handler)
qed

theorem C9_one_after_the_other_witness:
  "findActivity 7 sample_db = Some sample_activity \<and> status sample_activity = pending
   \<and> map_option status (findActivity 7 (fst (approveActivity sample_env 1000 sample_admin 7 sample_db)))
       = Some approved
   \<and> approveActivity sample_env 1001 sample_admin 7
        (fst (approveActivity sample_env 1000 sample_admin 7 sample_db))
       = (fst (approveActivity sample_env 1000 sample_admin 7 sample_db),
          Json 400 ''Activity already processed'')
   \<and> map_option status
        (findActivity 7 (fst (rejectActivity 1000 sample_admin (Some ''No proof'') 7 sample_db)))
       = Some rejected
   \<and> rejectActivity 1001 sample_admin None 7
        (fst (rejectActivity 1000 sample_admin (Some ''No proof'') 7 sample_db))
       = (fst (rejectActivity 1000 sample_admin (Some ''No proof'') 7 sample_db),
          Json 400 ''Activity already processed'')"
proof -
  have f: "findActivity 7 sample_db = Some sample_activity"
    by (simp add: findActivity_def sample_defs)
  have s: "status sample_activity = pending" by (simp add: sample_defs)
  show ?thesis
    using C9_decisions_one_after_the_other [OF f s,
        where env = sample_env and now = 1000 and v = sample_admin and reason = "Some ''No proof''"
          and env' = sample_env and now' = 1001 and v' = sample_admin and reason' = None]
      f s
    by simp
qed

text \<open>
  Claim C9 as stated fails. When the second request reads the activity before the
  first has saved it, both find it pending, both save, both answer status 200, and the
  owner goes from 450 to 650 points for one activity. And after the first two steps of
  a single approval the database holds status approved together with the owner's
  pre-award total of 450 points.
\<close>

theorem C9_interleaved_approvals_counterexample:
  "(case interleave first_request second_request
           [First, Second, First, First, First, First, Second, Second, Second, Second]
           (Find_activity, Find_activity, sample_db) of
      (t1, t2, d) \<Rightarrow>
        t1 = Responded (JsonActivity ''Activity approved successfully''
               (sample_activity\<lparr>status := approved, pointsAwarded := 100,
                                 verifiedBy := Some 1, verifiedAt := Some 1000\<rparr>))
      \<and> t2 = Responded (JsonActivity ''Activity approved successfully''
               (sample_activity\<lparr>status := approved, pointsAwarded := 100,
                                 verifiedBy := Some 4, verifiedAt := Some 1001\<rparr>))
      \<and> map_option civicPoints (findUser 2 sample_db) = Some 450
      \<and> map_option civicPoints (findUser 2 d) = Some 650)
   \<and> (case interleave first_request second_request [First, First]
           (Find_activity, Find_activity, sample_db) of
      (t1, t2, d) \<Rightarrow>
        map_option status (findActivity 7 d) = Some approved
      \<and> map_option civicPoints (findUser 2 d) = Some 450)"
  by (simp add: first_request_def second_request_def configured_100 String_100 step_defs
      sample_admin_def second_admin_def sample_owner_def sample_peer_def sample_activity_def
      sample_db_def)

subsection \<open>The civic stats\<close>

lemma count_filter:
  "length (filter (\<lambda>a. a_user a = uid \<and> status a = st) xs) = count_with_status uid st xs"
  by (induction xs) auto

lemma foldl_plus_start: "foldl (+) (n :: nat) xs = n + foldl (+) 0 xs"
proof (induction xs arbitrary: n)
  case Nil
  then show ?case by simp
next
  case (Cons x xs)
  have "foldl (+) (n + x) xs = (n + x) + foldl (+) 0 xs" by (rule Cons.IH)
  moreover have "foldl (+) (0 + x) xs = x + foldl (+) 0 xs" using Cons.IH [of x] by simp
  ultimately show ?case by simp
qed

lemma sum_filter:
  "foldl (+) 0 (map (\<lambda>a. length (endorsements a))
                 (filter (\<lambda>a. a_user a = uid \<and> status a = approved) xs))
   = approved_endorsements uid xs"
proof (induction xs)
  case Nil
  then show ?case by simp
next
  case (Cons a xs)
  then show ?case
    using foldl_plus_start [of "length (endorsements a)"] by simp
qed

lemma aggregate_total:
  "(case aggregate_endorsements uid d of [] \<Rightarrow> 0 | t # _ \<Rightarrow> if t = 0 then 0 else t)
   = approved_endorsements uid (activities d)"
proof (cases "filter (\<lambda>a. a_user a = uid \<and> status a = approved) (activities d) = []")
  case True
  then show ?thesis
    using sum_filter [of uid "activities d"] by (simp add: aggregate_endorsements_def)
next
  case False
  then show ?thesis
    using sum_filter [of uid "activities d"] by (simp add: aggregate_endorsements_def Let_def)
qed

text \<open>
  Claim C8. For every user, the civic stats read operation returns totalActivities equal
  to the number of that user's activities with status approved, pendingActivities equal
  to the number with status pending, and totalEndorsements equal to the sum of the
  lengths of the endorsement lists of that user's approved activities only; the database
  it returns is the database it was given.
\<close>

theorem C8_civic_stats_count_and_sum:
  assumes "findUser uid d = Some u"
  shows "getUserCivicStats uid d =
           (d, JsonStats (civicPoints u) (civicRank u)
                 (count_with_status uid approved (activities d))
                 (count_with_status uid pending (activities d))
                 (approved_endorsements uid (activities d)))"
proof -
  have "u_id u = uid" using assms by (rule findUser_id)
  then show ?thesis
    using assms
    by (simp add: getUserCivicStats_def Let_def countDocuments_def count_filter aggregate_total)
qed

theorem C8_civic_stats_witness:
  "findUser 2 stats_db = Some sample_owner
   \<and> getUserCivicStats 2 stats_db = (stats_db, JsonStats 450 Citizen 3 1 7)"
proof -
  have f: "findUser 2 stats_db = Some sample_owner"
    by (simp add: findUser_def stats_db_def sample_defs)
  have c: "count_with_status 2 approved (activities stats_db) = 3"
    "count_with_status 2 pending (activities stats_db) = 1"
    "approved_endorsements 2 (activities stats_db) = 7"
    by (simp_all add: stats_db_def stats_activity_def sample_endorsements_def)
  show ?thesis
    using C8_civic_stats_count_and_sum [OF f] f by (simp add: c) (simp add: sample_defs)
qed

subsection \<open>The rank table\<close>

text \<open>
  Claim C3. The rank computation is defined for every non-negative point total and
  yields the tier of the threshold table, lower bounds inclusive: 0 to 499 Citizen, 500
  to 1999 Helper, 2000 to 4999 Champion, 5000 to 9999 Hero, 10000 and more Legend. It is
  monotonic: a user with at least as many points has at least as high a tier. It writes
  the rank and nothing else.
\<close>

theorem C3_rank_table_exact_and_monotonic:
  "(0 \<le> civicPoints u \<longrightarrow>
      rank_table (civicPoints u) = Some (civicRank (updateCivicRank u)))
   \<and> (civicPoints u \<le> civicPoints v \<longrightarrow>
      rank_index (civicRank (updateCivicRank u)) \<le> rank_index (civicRank (updateCivicRank v)))
   \<and> updateCivicRank u = u\<lparr>civicRank := civicRank (updateCivicRank u)\<rparr>"
  by (simp add: updateCivicRank_def rank_table_def Let_def)

theorem C3_rank_table_witness:
  "map (\<lambda>p. civicRank (updateCivicRank \<lparr>u_id = 1, fullName = ''Asha'', civicPoints = p, civicRank = Citizen\<rparr>))
     [0, 499, 500, 1999, 2000, 4999, 5000, 9999, 10000]
   = [Citizen, Citizen, Helper, Helper, Champion, Champion, Hero, Hero, Legend]
   \<and> rank_table 499 = Some Citizen \<and> rank_table 500 = Some Helper
   \<and> rank_index (civicRank (updateCivicRank \<lparr>u_id = 1, fullName = ''Asha'', civicPoints = 499, civicRank = Legend\<rparr>))
     \<le> rank_index (civicRank (updateCivicRank \<lparr>u_id = 2, fullName = ''Bo'', civicPoints = 500, civicRank = Citizen\<rparr>))"
  using C3_rank_table_exact_and_monotonic
    [of "\<lparr>u_id = 1, fullName = ''Asha'', civicPoints = 499, civicRank = Legend\<rparr>"
        "\<lparr>u_id = 2, fullName = ''Bo'', civicPoints = 500, civicRank = Citizen\<rparr>"]
  by (simp add: updateCivicRank_def rank_table_def Let_def)

end
